theory Spec2Isabelle
  imports Complex_Main
begin

section \<open>JavaScript values used by html2pptx.js\<close>

text \<open>
  Finite JavaScript numbers are modelled as exact rationals (\<open>rat\<close>); where the
  source can produce \<open>NaN\<close> the type is \<open>jsnum\<close>, and \<open>null\<close> or an absent property
  is the \<open>None\<close> of an option.  Binary floating-point rounding and the infinities are
  not modelled.  Strings are \<open>char list\<close>s of bytes (UTF-8 for characters beyond ASCII).
\<close>

datatype jsnum = NaN | Num rat

text \<open>
  \<open>a || b\<close> where \<open>a\<close> is a number or \<open>null\<close> (\<open>None\<close>) and is never \<open>NaN\<close>:
  \<open>0\<close> and \<open>null\<close> are falsy.
\<close>

definition num_or :: "rat option \<Rightarrow> rat \<Rightarrow> rat" where
  "num_or a b = (case a of None \<Rightarrow> b | Some v \<Rightarrow> if v = 0 then b else v)"

text \<open>Arithmetic that lets \<open>NaN\<close> through.\<close>

definition num_map :: "(rat \<Rightarrow> rat) \<Rightarrow> jsnum \<Rightarrow> jsnum" where
  "num_map f v = (case v of NaN \<Rightarrow> NaN | Num r \<Rightarrow> Num (f r))"


text \<open>\<open>Math.round\<close>: the nearest integer, ties towards plus infinity.\<close>

definition Math_round :: "rat \<Rightarrow> int" where
  "Math_round x = \<lfloor>x + 1 / 2\<rfloor>"

subsection \<open>Decimal digits\<close>

definition is_digit :: "char \<Rightarrow> bool" where
  "is_digit c = (c \<in> set ''0123456789'')"

text \<open>The value of a digit: its place in the string of digits.\<close>

definition digit_val :: "char \<Rightarrow> nat" where
  "digit_val c =
     (let k = length (takeWhile (\<lambda>d. d \<noteq> c) ''0123456789'') in if k < 10 then k else 0)"

definition digit_char :: "nat \<Rightarrow> char" where
  "digit_char d = (if d < 10 then ''0123456789'' ! d else CHR ''0'')"

text \<open>The value of a string of decimal digits, most significant first.\<close>

definition digits_val :: "string \<Rightarrow> nat" where
  "digits_val ds = foldl (\<lambda>acc c. 10 * acc + digit_val c) 0 ds"

text \<open>\<open>String(n)\<close> for a non-negative integer.\<close>

fun nat_digits :: "nat \<Rightarrow> string" where
  "nat_digits n =
     (if n < 10 then [digit_char n] else nat_digits (n div 10) @ [digit_char (n mod 10)])"

declare nat_digits.simps [simp del]

text \<open>
  \<open>Number.prototype.toFixed(d)\<close>: the sign, then the integer \<open>n\<close> nearest to
  \<open>|x| * 10^d\<close> (the larger one on a tie), written with at least \<open>d + 1\<close> digits
  and a point before the last \<open>d\<close>.  (Values of \<open>10^21\<close> and more, which JavaScript
  prints in exponent notation, do not occur here.)
\<close>

definition toFixed :: "nat \<Rightarrow> rat \<Rightarrow> string" where
  "toFixed d x =
     (let n = nat \<lfloor>\<bar>x\<bar> * 10 ^ d + 1 / 2\<rfloor>;
          s = nat_digits n;
          p = replicate (d + 1 - length s) (CHR ''0'') @ s;
          k = length p - d
      in (if x < 0 then ''-'' else []) @
         (if d = 0 then p else take k p @ ''.'' @ drop k p))"

section \<open>Body dimensions and the overflow check\<close>

text \<open>The module-level constants of html2pptx.js (not those of the page script).\<close>

definition PT_PER_PX :: rat where "PT_PER_PX = 1 / 2"
definition PX_PER_IN :: rat where "PX_PER_IN = 96"
definition EMU_PER_IN :: rat where "EMU_PER_IN = 914400"

text \<open>What \<open>page.evaluate\<close> returns in \<open>getBodyDimensions\<close>.\<close>

record body_dimensions =
  width :: rat
  height :: rat
  scrollWidth :: rat
  scrollHeight :: rat
  containerWidth :: "rat option"
  containerHeight :: "rat option"

text \<open>
  The container loop: \<open>probes\<close> holds, for each of the five selectors in order, the
  \<open>(w, h)\<close> of the element \<open>document.querySelector\<close> finds, if any.  The first one that
  is positive and narrower than the body wins.
\<close>

fun findContainer :: "rat \<Rightarrow> (rat \<times> rat) option list \<Rightarrow> (rat \<times> rat) option" where
  "findContainer bodyOffsetWidth [] = None"
| "findContainer bodyOffsetWidth (None # ps) = findContainer bodyOffsetWidth ps"
| "findContainer bodyOffsetWidth (Some (w, h) # ps) =
     (if w > 0 \<and> h > 0 \<and> w < bodyOffsetWidth then Some (w, h)
      else findContainer bodyOffsetWidth ps)"

text \<open>
  The object the page returns: \<open>w\<close> and \<open>h\<close> are \<open>parseFloat(style.width) || body.offsetWidth\<close>
  and its twin for the height.
\<close>

definition bodyResult ::
    "rat \<Rightarrow> rat \<Rightarrow> rat \<Rightarrow> rat \<Rightarrow> rat \<Rightarrow> (rat \<times> rat) option list \<Rightarrow> body_dimensions" where
  "bodyResult w h bodyOffsetWidth sw sh probes =
     \<lparr> width = w, height = h, scrollWidth = sw, scrollHeight = sh,
       containerWidth = map_option fst (findContainer bodyOffsetWidth probes),
       containerHeight = map_option snd (findContainer bodyOffsetWidth probes) \<rparr>"

text \<open>\<open>containerWidth || width\<close> and \<open>containerHeight || height\<close>.\<close>

definition effectiveWidth :: "body_dimensions \<Rightarrow> rat" where
  "effectiveWidth b = num_or (containerWidth b) (width b)"

definition effectiveHeight :: "body_dimensions \<Rightarrow> rat" where
  "effectiveHeight b = num_or (containerHeight b) (height b)"

definition widthOverflowPt :: "body_dimensions \<Rightarrow> rat" where
  "widthOverflowPt b = max 0 (scrollWidth b - effectiveWidth b - 1) * PT_PER_PX"

definition heightOverflowPt :: "body_dimensions \<Rightarrow> rat" where
  "heightOverflowPt b = max 0 (scrollHeight b - effectiveHeight b - 1) * PT_PER_PX"

definition heightOverflowTolerance :: rat where
  "heightOverflowTolerance = 100"

definition overflow_message :: "rat \<Rightarrow> string" where
  "overflow_message overflowExcess =
     ''HTML content overflows by '' @ toFixed 1 overflowExcess @
     ''pt vertically (exceeds 100pt padding tolerance)''"

text \<open>
  The \<open>errors\<close> array \<open>getBodyDimensions\<close> returns beside the dimensions.
  \<open>widthOverflowPt\<close> is computed by the source and never read.
\<close>

definition getBodyDimensions_errors :: "body_dimensions \<Rightarrow> string list" where
  "getBodyDimensions_errors b =
     (if heightOverflowPt b > heightOverflowTolerance
      then [overflow_message (heightOverflowPt b - heightOverflowTolerance)]
      else [])"

section \<open>The slide data returned by the page script\<close>

record position =
  pos_x :: rat
  pos_y :: rat
  pos_w :: rat
  pos_h :: rat

text \<open>
  The options object of a run.  A key that is not set is \<open>None\<close>; \<open>ro_bullet\<close> holds the
  \<open>indent\<close> of \<open>bullet: { indent }\<close>.
\<close>

record run_options =
  ro_bold :: "bool option"
  ro_italic :: "bool option"
  ro_underline :: "bool option"
  ro_color :: "string option"
  ro_transparency :: "jsnum option"
  ro_fontSize :: "jsnum option"
  ro_fontFace :: "string option"
  ro_breakLine :: "bool option"
  ro_bullet :: "rat option"

record run =
  run_text :: string
  run_options :: run_options

datatype text_content = Plain string | Runs "run list"

text \<open>
  The \<open>style\<close> of a text or list element.  \<open>lineSpacing\<close> is \<open>null\<close> (\<open>None\<close>) for a list
  whose line height is \<open>normal\<close>; \<open>transparency\<close>, \<open>rotate\<close>, \<open>bold\<close>, \<open>italic\<close> and
  \<open>underline\<close> are \<open>None\<close> where the source leaves them out or sets \<open>null\<close>.
\<close>

record text_style =
  fontSize :: jsnum
  fontFace :: string
  color :: string
  align :: string
  lineSpacing :: "jsnum option"
  paraSpaceBefore :: jsnum
  paraSpaceAfter :: jsnum
  margin :: "jsnum list"
  transparency :: "jsnum option"
  rotate :: "jsnum option"
  bold :: "bool option"
  italic :: "bool option"
  underline :: "bool option"

record shadow_spec =
  shadow_angle :: int
  shadow_blur :: rat
  shadow_color :: string
  shadow_offset :: rat
  shadow_opacity :: rat

record shape_data =
  shape_fill :: "string option"
  shape_transparency :: "jsnum option"
  shape_line :: "(string \<times> jsnum) option"
  rectRadius :: jsnum
  shape_shadow :: "shadow_spec option"

record cell_options =
  cell_bold :: bool
  cell_color :: string
  cell_fontSize :: jsnum
  cell_fontFace :: string
  cell_margin :: "jsnum list"
  cell_fill :: "string option"

record cell =
  cell_text :: text_content
  cell_opts :: cell_options

record table_style =
  table_fontSize :: jsnum
  table_fontFace :: string
  table_color :: string
  table_transparency :: "jsnum option"
  table_border_color :: string
  table_border_width :: jsnum

text \<open>
  The elements, one constructor per value of \<open>el.type\<close>; a text element keeps its
  \<open>type\<close>, the lower-case tag name.  The page script never sets \<open>align\<close>, \<open>valign\<close>,
  \<open>fontSize\<close>, \<open>fontFace\<close>, \<open>color\<close> or \<open>transparency\<close> on a shape itself, and its
  \<open>text\<close> is always empty.
\<close>

datatype element =
    Image string position
  | Line jsnum jsnum jsnum jsnum jsnum string
  | Shape position shape_data
  | ListBlock "run list" position text_style
  | TableBlock "cell list list" "rat list" position table_style
  | TextBlock string text_content position text_style

datatype background = BgImage string | BgColor string

record placeholder =
  ph_id :: string
  ph_x :: rat
  ph_y :: rat
  ph_w :: rat
  ph_h :: rat

record slide_data =
  sd_background :: background
  sd_elements :: "element list"
  sd_placeholders :: "placeholder list"
  sd_errors :: "string list"

section \<open>Validation in html2pptx\<close>

definition dquote :: string where "dquote = [CHR 0x22]"

text \<open>The multiplication sign U+00D7 of the dimension message, in UTF-8.\<close>

definition times_sign :: string where "times_sign = [CHR 0xC3, CHR 0x97]"

definition newline :: string where "newline = [CHR 0x0A]"

definition dims_text :: "rat \<Rightarrow> rat \<Rightarrow> string" where
  "dims_text a b =
     ''('' @ toFixed 1 a @ dquote @ '' '' @ times_sign @ '' '' @ toFixed 1 b @ dquote @ '')''"

text \<open>\<open>pres.presLayout\<close>, when present, holds the layout width and height in EMU.\<close>

definition validateDimensions :: "body_dimensions \<Rightarrow> (rat \<times> rat) option \<Rightarrow> string list" where
  "validateDimensions b presLayout =
     (let widthInches = width b / PX_PER_IN;
          heightInches = height b / PX_PER_IN
      in case presLayout of
           None \<Rightarrow> []
         | Some (lw, lh) \<Rightarrow>
             (let layoutWidth = lw / EMU_PER_IN;
                  layoutHeight = lh / EMU_PER_IN;
                  effW = (case containerWidth b of
                            None \<Rightarrow> widthInches
                          | Some c \<Rightarrow> if c = 0 then widthInches else c / PX_PER_IN);
                  effH = (case containerHeight b of
                            None \<Rightarrow> heightInches
                          | Some c \<Rightarrow> if c = 0 then heightInches else c / PX_PER_IN);
                  widthToCheck =
                    (if \<bar>effW - layoutWidth\<bar> < \<bar>widthInches - layoutWidth\<bar>
                     then effW else widthInches);
                  heightToCheck =
                    (if \<bar>effH - layoutHeight\<bar> < \<bar>heightInches - layoutHeight\<bar>
                     then effH else heightInches)
              in if \<bar>layoutWidth - widthToCheck\<bar> > 1 \<or> \<bar>layoutHeight - heightToCheck\<bar> > 1
                 then [''HTML effective dimensions '' @ dims_text widthToCheck heightToCheck @
                       '' don't match presentation layout '' @
                       dims_text layoutWidth layoutHeight]
                 else []))"

text \<open>\<open>arr.find(t => t.text)?.text || ''\<close>: the first non-empty run text.\<close>

fun first_run_text :: "run list \<Rightarrow> string" where
  "first_run_text [] = []"
| "first_run_text (r # rs) = (if run_text r \<noteq> [] then run_text r else first_run_text rs)"

definition textPrefix :: "string \<Rightarrow> string" where
  "textPrefix t = take 50 t @ (if length t > 50 then ''...'' else [])"

definition minBottomMargin :: rat where "minBottomMargin = 1 / 2"

definition checked_types :: "string list" where
  "checked_types = [''p'', ''h1'', ''h2'', ''h3'', ''h4'', ''h5'', ''h6'', ''list'']"

text \<open>\<open>fontSize > 12\<close> after \<open>el.style?.fontSize || 0\<close>; \<open>NaN\<close> is falsy.\<close>

definition fontSize_over_12 :: "jsnum \<Rightarrow> bool" where
  "fontSize_over_12 f = (case f of NaN \<Rightarrow> False | Num v \<Rightarrow> v > 12)"

definition bottom_message :: "string \<Rightarrow> rat \<Rightarrow> string" where
  "bottom_message t distanceFromBottom =
     ''Text box '' @ dquote @ textPrefix t @ dquote @ '' ends too close to bottom edge ('' @
     toFixed 2 distanceFromBottom @ dquote @ '' from bottom, minimum 0.5'' @ dquote @
     '' required)''"

text \<open>
  One pass of the loop of \<open>validateTextBoxPosition\<close>: the finding of one element, if
  any.  \<open>getText\<close> reads \<open>el.text\<close> of a text element and \<open>el.items\<close> of a list.
\<close>

definition textBoxError :: "rat \<Rightarrow> element \<Rightarrow> string list" where
  "textBoxError slideHeightInches el =
     (case el of
        TextBlock ty txt pos st \<Rightarrow>
          (let distanceFromBottom = slideHeightInches - (pos_y pos + pos_h pos)
           in if ty \<in> set checked_types \<and> fontSize_over_12 (fontSize st) \<and>
                 distanceFromBottom < minBottomMargin
              then [bottom_message
                      (case txt of Plain t \<Rightarrow> t | Runs rs \<Rightarrow> first_run_text rs)
                      distanceFromBottom]
              else [])
      | ListBlock items pos st \<Rightarrow>
          (let distanceFromBottom = slideHeightInches - (pos_y pos + pos_h pos)
           in if fontSize_over_12 (fontSize st) \<and> distanceFromBottom < minBottomMargin
              then [bottom_message (first_run_text items) distanceFromBottom]
              else [])
      | _ \<Rightarrow> [])"

definition validateTextBoxPosition :: "slide_data \<Rightarrow> body_dimensions \<Rightarrow> string list" where
  "validateTextBoxPosition sd b =
     concat (map (textBoxError (height b / PX_PER_IN)) (sd_elements sd))"

subsection \<open>Table structure\<close>

definition table_at :: "position \<Rightarrow> string" where
  "table_at pos =
     ''Table at position ('' @ toFixed 2 (pos_x pos) @ dquote @ '', '' @
     toFixed 2 (pos_y pos) @ dquote @ '')''"

definition row_count_message :: "nat \<Rightarrow> nat \<Rightarrow> nat \<Rightarrow> string" where
  "row_count_message expectedCols rowIdx n =
     ''Table has inconsistent column count: '' @ dquote @ ''Header'' @ dquote @ '' has '' @
     nat_digits expectedCols @ '' columns but '' @ dquote @ ''Row '' @
     nat_digits (rowIdx + 1) @ dquote @ '' has '' @ nat_digits n @ '' columns.''"

text \<open>The inner \<open>el.data.forEach((row, rowIdx) => ...)\<close>, from row index \<open>rowIdx\<close> on.\<close>

fun rowErrors :: "nat \<Rightarrow> nat \<Rightarrow> 'a list list \<Rightarrow> string list" where
  "rowErrors expectedCols rowIdx [] = []"
| "rowErrors expectedCols rowIdx (row # rows) =
     (if length row \<noteq> expectedCols
      then [row_count_message expectedCols rowIdx (length row)] else []) @
     rowErrors expectedCols (rowIdx + 1) rows"

definition tableErrors :: "element \<Rightarrow> string list" where
  "tableErrors el =
     (case el of
        TableBlock tdata colWidths pos st \<Rightarrow>
          (if colWidths = []
           then [table_at pos @ '' has no column widths. '' @
                 ''Possible cause: table without <thead> and first row doesn't contain <td> elements. '' @
                 ''Add <thead> wrapper around header row or ensure data rows contain <td> elements.'']
           else []) @
          (if tdata = [] then [table_at pos @ '' has no data.''] else []) @
          (if tdata \<noteq> [] \<and> colWidths \<noteq> [] then rowErrors (length colWidths) 0 tdata
           else [])
      | _ \<Rightarrow> [])"

text \<open>
  \<open>validationErrors\<close> as html2pptx accumulates it: the overflow findings, the dimension
  findings, the text box findings, the findings of the page script, the table findings.
\<close>

definition validationErrors ::
    "body_dimensions \<Rightarrow> slide_data \<Rightarrow> (rat \<times> rat) option \<Rightarrow> string list" where
  "validationErrors b sd presLayout =
     getBodyDimensions_errors b @ validateDimensions b presLayout @
     validateTextBoxPosition sd b @ sd_errors sd @
     concat (map tableErrors (sd_elements sd))"




definition startsWith :: "string \<Rightarrow> string \<Rightarrow> bool" where
  "startsWith s p = (take (length p) s = p)"


section \<open>The slide emitter\<close>

text \<open>
  The calls made on the target slide, with the option objects they receive.  A key the
  source sets only under a condition is an option.
\<close>

record shape_options =
  so_x :: rat
  so_y :: rat
  so_w :: rat
  so_h :: rat
  so_shape :: string
  so_align :: string
  so_valign :: string
  so_fill :: "(string \<times> jsnum option) option"
  so_line :: "(string \<times> jsnum) option"
  so_rectRadius :: "jsnum option"
  so_shadow :: "shadow_spec option"

record text_options =
  to_x :: rat
  to_y :: rat
  to_w :: rat
  to_h :: rat
  to_fontSize :: jsnum
  to_fontFace :: string
  to_color :: string
  to_bold :: "bool option"
  to_italic :: "bool option"
  to_underline :: "bool option"
  to_valign :: string
  to_lineSpacing :: "jsnum option"
  to_paraSpaceBefore :: jsnum
  to_paraSpaceAfter :: jsnum
  to_inset :: "rat option"
  to_align :: "string option"
  to_margin :: "jsnum list option"
  to_rotate :: "jsnum option"
  to_transparency :: "jsnum option"

record table_options =
  tb_x :: rat
  tb_y :: rat
  tb_w :: rat
  tb_h :: rat
  tb_colW :: "rat list"
  tb_autoPage :: bool
  tb_align :: string
  tb_valign :: string

datatype call =
    AddImage string position
  | AddLine jsnum jsnum jsnum jsnum string jsnum
  | AddShapeText string shape_options
  | AddText text_content text_options
  | AddTable "cell list list" table_options


definition jsnum_pos :: "jsnum \<Rightarrow> bool" where
  "jsnum_pos v = (case v of NaN \<Rightarrow> False | Num r \<Rightarrow> r > 0)"








definition shapeOptions :: "position \<Rightarrow> shape_data \<Rightarrow> shape_options" where
  "shapeOptions pos sh =
     \<lparr> so_x = pos_x pos, so_y = pos_y pos, so_w = pos_w pos, so_h = pos_h pos,
       so_shape = (if jsnum_pos (rectRadius sh) then ''roundRect'' else ''rect''),
       so_align = ''center'', so_valign = ''middle'',
       so_fill = (case shape_fill sh of
                    None \<Rightarrow> None
                  | Some c \<Rightarrow> if c = [] then None else Some (c, shape_transparency sh)),
       so_line = shape_line sh,
       so_rectRadius = (if jsnum_pos (rectRadius sh) then Some (rectRadius sh) else None),
       so_shadow = shape_shadow sh \<rparr>"



datatype slide_background = SlidePath string | SlideColor string

record slide =
  slide_bg :: "slide_background option"
  slide_calls :: "call list"



section \<open>html2pptx\<close>

text \<open>
  What html2pptx can mutate: the deck object \<open>pres\<close> (its layout is only read;
  \<open>pres.addSlide()\<close> appends an empty slide and returns it) and the slide object the
  caller passed as \<open>options.slide\<close>, if any.
\<close>

record h2p_state =
  presLayout :: "(rat \<times> rat) option"
  slides :: "slide list"
  caller_slide :: "slide option"






section \<open>The page script: strings and numbers\<close>

text \<open>White space as \<open>\s\<close> and \<open>trim\<close> see it, within ASCII.\<close>

definition js_space :: "char \<Rightarrow> bool" where
  "js_space c = (c \<in> set [CHR 0x09, CHR 0x0A, CHR 0x0B, CHR 0x0C, CHR 0x0D, CHR 0x20])"

definition trimStart :: "string \<Rightarrow> string" where
  "trimStart s = dropWhile js_space s"

definition trimEnd :: "string \<Rightarrow> string" where
  "trimEnd s = rev (dropWhile js_space (rev s))"

definition trim :: "string \<Rightarrow> string" where
  "trim s = trimEnd (trimStart s)"

text \<open>\<open>s.includes(sub)\<close>.\<close>

fun str_includes :: "string \<Rightarrow> string \<Rightarrow> bool" where
  "str_includes [] sub = (sub = [])"
| "str_includes (c # cs) sub = (startsWith (c # cs) sub \<or> str_includes cs sub)"

text \<open>
  An unanchored regular-expression match: \<open>m\<close> matches at the start of its argument,
  and the first position of the string where it succeeds wins.
\<close>

fun regex_search :: "(string \<Rightarrow> 'a option) \<Rightarrow> string \<Rightarrow> 'a option" where
  "regex_search m [] = m []"
| "regex_search m (c # cs) =
     (case m (c # cs) of Some r \<Rightarrow> Some r | None \<Rightarrow> regex_search m cs)"

text \<open>A literal at the start of a string: the rest after it.\<close>

definition lit :: "string \<Rightarrow> string \<Rightarrow> string option" where
  "lit p s = (if startsWith s p then Some (drop (length p) s) else None)"

text \<open>\<open>(\d+)\<close> at the start of a string: the digits and the rest.\<close>

definition digits1 :: "string \<Rightarrow> (string \<times> string) option" where
  "digits1 s =
     (let d = takeWhile is_digit s
      in if d = [] then None else Some (d, dropWhile is_digit s))"

text \<open>
  The exponent part of a decimal literal at the start of a string: \<open>e\<close> or \<open>E\<close>, an
  optional sign, and at least one digit; \<open>0\<close> when there is none.
\<close>

definition exponent_of :: "string \<Rightarrow> int" where
  "exponent_of r =
     (case r of
        [] \<Rightarrow> 0
      | c # r1 \<Rightarrow>
          if c = CHR ''e'' \<or> c = CHR ''E'' then
            (let neg = (case r1 of [] \<Rightarrow> False | c2 # _ \<Rightarrow> c2 = CHR ''-'');
                 r2 = (case r1 of
                         [] \<Rightarrow> []
                       | c2 # r3 \<Rightarrow> if c2 = CHR ''-'' \<or> c2 = CHR ''+'' then r3 else r1);
                 ds = takeWhile is_digit r2
             in if ds = [] then 0
                else if neg then - int (digits_val ds) else int (digits_val ds))
          else 0)"

definition scale10 :: "rat \<Rightarrow> int \<Rightarrow> rat" where
  "scale10 m e = (if e \<ge> 0 then m * 10 ^ nat e else m / 10 ^ nat (- e))"

text \<open>
  \<open>parseFloat\<close>: leading white space, an optional sign, then the longest decimal
  literal (digits, a point, digits, an exponent); \<open>NaN\<close> when no digit is found.
  (\<open>Infinity\<close> is read as \<open>NaN\<close> here; no computed style holds it.)
\<close>

definition parseFloat :: "string \<Rightarrow> jsnum" where
  "parseFloat s =
     (let t = dropWhile js_space s;
          neg = (case t of [] \<Rightarrow> False | c # _ \<Rightarrow> c = CHR ''-'');
          u = (case t of
                 [] \<Rightarrow> []
               | c # r \<Rightarrow> if c = CHR ''-'' \<or> c = CHR ''+'' then r else t);
          ip = takeWhile is_digit u;
          r1 = dropWhile is_digit u;
          hasPoint = (case r1 of [] \<Rightarrow> False | c # _ \<Rightarrow> c = CHR ''.'');
          fp = (if hasPoint then takeWhile is_digit (tl r1) else []);
          r2 = (if hasPoint then dropWhile is_digit (tl r1) else r1)
      in if ip = [] \<and> fp = [] then NaN
         else
           (let m = of_nat (digits_val ip) + of_nat (digits_val fp) / 10 ^ length fp;
                v = scale10 m (exponent_of r2)
            in Num (if neg then - v else v)))"

text \<open>\<open>Math.max(v, m)\<close>: \<open>NaN\<close> if \<open>v\<close> is.\<close>

definition Math_max :: "jsnum \<Rightarrow> rat \<Rightarrow> jsnum" where
  "Math_max v m = num_map (\<lambda>r. max r m) v"

text \<open>The constants of the page script.\<close>

definition PT_PER_PX_page :: rat where "PT_PER_PX_page = 7 / 10"

definition pxToInch :: "rat \<Rightarrow> rat" where
  "pxToInch px = px / PX_PER_IN"

text \<open>
  \<open>pxToPoints\<close> of a string: \<open>/^([\d.]+)(px|pt)?$/\<close> gives the number and the unit; both
  units, and a string that does not match, are scaled alike.
\<close>

definition px_match :: "string \<Rightarrow> (string \<times> string) option" where
  "px_match s =
     (let d = takeWhile (\<lambda>c. is_digit c \<or> c = CHR ''.'') s;
          r = dropWhile (\<lambda>c. is_digit c \<or> c = CHR ''.'') s
      in if d \<noteq> [] \<and> (r = [] \<or> r = ''px'' \<or> r = ''pt'') then Some (d, r) else None)"

definition pxToPoints :: "string \<Rightarrow> jsnum" where
  "pxToPoints pxStr =
     (case px_match pxStr of
        None \<Rightarrow> num_map (\<lambda>v. v * PT_PER_PX_page) (parseFloat pxStr)
      | Some (d, unit) \<Rightarrow>
          if unit = ''pt'' then num_map (\<lambda>v. v * PT_PER_PX_page) (parseFloat d)
          else num_map (\<lambda>v. v * PT_PER_PX_page) (parseFloat d))"

text \<open>\<open>pxToPoints\<close> of a number.\<close>

definition pxToPoints_num :: "jsnum \<Rightarrow> jsnum" where
  "pxToPoints_num v = num_map (\<lambda>r. r * PT_PER_PX_page) v"

section \<open>The page script: colours\<close>

definition hex_char :: "nat \<Rightarrow> char" where
  "hex_char d = (if d < 16 then ''0123456789abcdef'' ! d else CHR ''f'')"

text \<open>\<open>n.toString(16)\<close>.\<close>

fun hex_digits :: "nat \<Rightarrow> string" where
  "hex_digits n =
     (if n < 16 then [hex_char n] else hex_digits (n div 16) @ [hex_char (n mod 16)])"

declare hex_digits.simps [simp del]

text \<open>\<open>parseInt(n).toString(16).padStart(2, '0')\<close> for a string of digits.\<close>

definition hex2 :: "string \<Rightarrow> string" where
  "hex2 ds = (let h = hex_digits (digits_val ds) in replicate (2 - length h) (CHR ''0'') @ h)"

text \<open>\<open>/rgba?\((\d+),\s*(\d+),\s*(\d+)/\<close> at the start of a string.\<close>

definition rgb_match :: "string \<Rightarrow> (string \<times> string \<times> string) option" where
  "rgb_match s =
     (case lit ''rgb'' s of
        None \<Rightarrow> None
      | Some s1 \<Rightarrow>
          (case lit ''('' (case lit ''a'' s1 of Some s2 \<Rightarrow> s2 | None \<Rightarrow> s1) of
             None \<Rightarrow> None
           | Some s3 \<Rightarrow>
               (case digits1 s3 of
                  None \<Rightarrow> None
                | Some (r, s4) \<Rightarrow>
                    (case lit '','' s4 of
                       None \<Rightarrow> None
                     | Some s5 \<Rightarrow>
                         (case digits1 (dropWhile js_space s5) of
                            None \<Rightarrow> None
                          | Some (g, s6) \<Rightarrow>
                              (case lit '','' s6 of
                                 None \<Rightarrow> None
                               | Some s7 \<Rightarrow>
                                   (case digits1 (dropWhile js_space s7) of
                                      None \<Rightarrow> None
                                    | Some (b, s8) \<Rightarrow> Some (r, g, b))))))))"

definition rgbToHex :: "string \<Rightarrow> string" where
  "rgbToHex rgbStr =
     (if rgbStr = ''rgba(0, 0, 0, 0)'' \<or> rgbStr = ''transparent'' then ''FFFFFF''
      else case regex_search rgb_match rgbStr of
             None \<Rightarrow> ''FFFFFF''
           | Some (r, g, b) \<Rightarrow> hex2 r @ hex2 g @ hex2 b)"

text \<open>
  \<open>/rgba\((\d+),\s*(\d+),\s*(\d+),\s*([\d.]+)\)/\<close> at the start of a string: the fourth
  group.
\<close>

definition rgba_match :: "string \<Rightarrow> string option" where
  "rgba_match s =
     (case lit ''rgba('' s of
        None \<Rightarrow> None
      | Some s3 \<Rightarrow>
          (case digits1 s3 of
             None \<Rightarrow> None
           | Some (r, s4) \<Rightarrow>
               (case lit '','' s4 of
                  None \<Rightarrow> None
                | Some s5 \<Rightarrow>
                    (case digits1 (dropWhile js_space s5) of
                       None \<Rightarrow> None
                     | Some (g, s6) \<Rightarrow>
                         (case lit '','' s6 of
                            None \<Rightarrow> None
                          | Some s7 \<Rightarrow>
                              (case digits1 (dropWhile js_space s7) of
                                 None \<Rightarrow> None
                               | Some (b, s8) \<Rightarrow>
                                   (case lit '','' s8 of
                                      None \<Rightarrow> None
                                    | Some s9 \<Rightarrow>
                                        (let t = dropWhile js_space s9;
                                             a = takeWhile (\<lambda>c. is_digit c \<or> c = CHR ''.'') t;
                                             s10 = dropWhile (\<lambda>c. is_digit c \<or> c = CHR ''.'') t
                                         in if a \<noteq> [] \<and> startsWith s10 '')'' then Some a
                                            else None))))))))"

text \<open>
  \<open>extractAlpha\<close>: \<open>null\<close> without an alpha channel, else the transparency
  \<open>Math.round((1 - alpha) * 100)\<close>.
\<close>

definition extractAlpha :: "string \<Rightarrow> jsnum option" where
  "extractAlpha rgbStr =
     (case regex_search rgba_match rgbStr of
        None \<Rightarrow> None
      | Some a \<Rightarrow>
          Some (num_map (\<lambda>alpha. of_int (Math_round ((1 - alpha) * 100))) (parseFloat a)))"

text \<open>
  \<open>getComputedRGBColor\<close>.  The read-back of a canvas pixel filled with the colour is the
  browser's work, taken as the parameter \<open>canvas\<close>: the \<open>rgba(...)\<close> string built from
  the pixel.
\<close>

definition getComputedRGBColor :: "(string \<Rightarrow> string) \<Rightarrow> string \<Rightarrow> string" where
  "getComputedRGBColor canvas colorStr =
     (if colorStr = [] \<or> colorStr = ''transparent'' \<or> colorStr = ''rgba(0, 0, 0, 0)''
      then ''rgba(0, 0, 0, 0)''
      else if startsWith colorStr ''rgb'' then colorStr
      else canvas colorStr)"

text \<open>\<open>hasBg\<close>: a background colour that is set and not fully transparent.\<close>

definition hasBg :: "string \<Rightarrow> bool" where
  "hasBg backgroundColor = (backgroundColor \<noteq> [] \<and> backgroundColor \<noteq> ''rgba(0, 0, 0, 0)'')"

text \<open>
  The \<open>transparency\<close> of a shape's \<open>shape\<close> object, from the computed
  \<open>backgroundColor\<close> and \<open>opacity\<close> of the container.  \<open>parseFloat(opacity) || 1\<close> is
  \<open>1\<close> for \<open>NaN\<close> and \<open>0\<close>.
\<close>

definition shapeTransparency :: "(string \<Rightarrow> string) \<Rightarrow> string \<Rightarrow> string \<Rightarrow> jsnum option" where
  "shapeTransparency canvas backgroundColor opacity =
     (if hasBg backgroundColor then
        (let colorAlpha = extractAlpha (getComputedRGBColor canvas backgroundColor);
             elementOpacity = (case parseFloat opacity of
                                 NaN \<Rightarrow> 1
                               | Num v \<Rightarrow> if v = 0 then 1 else v)
         in if colorAlpha \<noteq> None \<and> colorAlpha \<noteq> Some (Num 0)
            then map_option (num_map (\<lambda>a. of_int (Math_round ((1 - a) * 100)))) colorAlpha
            else if elementOpacity < 1
            then Some (Num (of_int (Math_round ((1 - elementOpacity) * 100))))
            else None)
      else None)"

section \<open>The page script: rotation and boxes\<close>

text \<open>\<open>s.split(',')\<close>.\<close>

fun split_comma :: "string \<Rightarrow> string list" where
  "split_comma [] = [[]]"
| "split_comma (c # cs) =
     (if c = CHR '','' then [] # split_comma cs
      else case split_comma cs of [] \<Rightarrow> [[c]] | x # xs \<Rightarrow> (c # x) # xs)"

text \<open>\<open>/rotate\((-?\d+(?:\.\d+)?)deg\)/\<close> at the start of a string: the first group.\<close>

definition rotate_match :: "string \<Rightarrow> string option" where
  "rotate_match s =
     (case lit ''rotate('' s of
        None \<Rightarrow> None
      | Some s1 \<Rightarrow>
          (let sgn = (if startsWith s1 ''-'' then ''-'' else []);
               s2 = drop (length sgn) s1
           in case digits1 s2 of
                None \<Rightarrow> None
              | Some (ip, s3) \<Rightarrow>
                  (case (case lit ''.'' s3 of None \<Rightarrow> None | Some s4 \<Rightarrow> digits1 s4) of
                     Some (fp, s5) \<Rightarrow>
                       if startsWith s5 ''deg)'' then Some (sgn @ ip @ ''.'' @ fp)
                       else if startsWith s3 ''deg)'' then Some (sgn @ ip)
                       else None
                   | None \<Rightarrow> if startsWith s3 ''deg)'' then Some (sgn @ ip) else None)))"

text \<open>\<open>/matrix\(([^)]+)\)/\<close> at the start of a string: the first group.\<close>

definition matrix_match :: "string \<Rightarrow> string option" where
  "matrix_match s =
     (case lit ''matrix('' s of
        None \<Rightarrow> None
      | Some s1 \<Rightarrow>
          (let g = takeWhile (\<lambda>c. c \<noteq> CHR '')'') s1;
               r = dropWhile (\<lambda>c. c \<noteq> CHR '')'') s1
           in if g \<noteq> [] \<and> r \<noteq> [] then Some g else None))"

text \<open>
  \<open>Math.round(Math.atan2(values[1], values[0]) * (180 / Math.PI))\<close> for the entries of a
  matrix.  The arc tangent is the built-in's work, taken as the parameter
  \<open>atan2_deg b a\<close>: the rounded angle in degrees for finite \<open>b\<close> and \<open>a\<close>.  An entry
  that is missing or does not parse makes the result \<open>NaN\<close>.
\<close>

definition matrixAngle :: "(rat \<Rightarrow> rat \<Rightarrow> int) \<Rightarrow> string \<Rightarrow> jsnum" where
  "matrixAngle atan2_deg g =
     (let vals = map parseFloat (split_comma g)
      in case vals of
           Num a # Num b # _ \<Rightarrow> Num (of_int (atan2_deg b a))
         | _ \<Rightarrow> NaN)"

text \<open>The remainder \<open>a % 360\<close>, which has the sign of \<open>a\<close>.\<close>

definition rem360 :: "rat \<Rightarrow> rat" where
  "rem360 a = (if a \<ge> 0 then a - 360 * of_int \<lfloor>a / 360\<rfloor> else a - 360 * of_int \<lceil>a / 360\<rceil>)"

text \<open>Normalisation to the range 0-359 and \<open>angle === 0 ? null : angle\<close>.\<close>

definition normalizeAngle :: "jsnum \<Rightarrow> jsnum option" where
  "normalizeAngle angle =
     (case angle of
        NaN \<Rightarrow> Some NaN
      | Num a \<Rightarrow>
          (let r = rem360 a;
               r' = (if r < 0 then r + 360 else r)
           in if r' = 0 then None else Some (Num r')))"

definition getRotation :: "(rat \<Rightarrow> rat \<Rightarrow> int) \<Rightarrow> string \<Rightarrow> string \<Rightarrow> jsnum option" where
  "getRotation atan2_deg transform writingMode =
     (let angle0 = (if writingMode = ''vertical-rl'' then 90
                    else if writingMode = ''vertical-lr'' then 270 else 0);
          angle =
            (if transform \<noteq> [] \<and> transform \<noteq> ''none'' then
               (case regex_search rotate_match transform of
                  Some g \<Rightarrow> num_map (\<lambda>v. angle0 + v) (parseFloat g)
                | None \<Rightarrow>
                    (case regex_search matrix_match transform of
                       Some g \<Rightarrow> num_map (\<lambda>v. angle0 + v) (matrixAngle atan2_deg g)
                     | None \<Rightarrow> Num angle0))
             else Num angle0)
      in normalizeAngle angle)"

text \<open>A box as \<open>getBoundingClientRect\<close> and \<open>adjustRect\<close> give it, in pixels.\<close>

record rect =
  left :: rat
  top :: rat
  rect_width :: rat
  rect_height :: rat

text \<open>
  \<open>getPositionAndSize\<close>: \<open>offsetWidth\<close> and \<open>offsetHeight\<close> are those of the element.
  The result is \<open>(x, y, w, h)\<close> in pixels.
\<close>

definition getPositionAndSize :: "rat \<Rightarrow> rat \<Rightarrow> rect \<Rightarrow> jsnum option \<Rightarrow> rat \<times> rat \<times> rat \<times> rat" where
  "getPositionAndSize offsetWidth offsetHeight r rotation =
     (if rotation = None then (left r, top r, rect_width r, rect_height r)
      else
        (let centerX = left r + rect_width r / 2;
             centerY = top r + rect_height r / 2
         in if rotation = Some (Num 90) \<or> rotation = Some (Num 270)
            then (centerX - rect_height r / 2, centerY - rect_width r / 2,
                  rect_height r, rect_width r)
            else (centerX - offsetWidth / 2, centerY - offsetHeight / 2,
                  offsetWidth, offsetHeight)))"

text \<open>
  \<open>containerOffset\<close>: \<open>found\<close> holds, for each of the five selectors in order, the left
  and top of the box of the element \<open>document.querySelector\<close> finds, if any; the first
  element found gives the offset.
\<close>

fun containerOffset :: "(rat \<times> rat) option list \<Rightarrow> rat \<times> rat" where
  "containerOffset [] = (0, 0)"
| "containerOffset (None # fs) = containerOffset fs"
| "containerOffset (Some (l, t) # fs) = (l, t)"

definition adjustRect :: "rat \<times> rat \<Rightarrow> rect \<Rightarrow> rect" where
  "adjustRect off r =
     \<lparr> left = max 0 (left r - fst off), top = max 0 (top r - snd off),
       rect_width = rect_width r, rect_height = rect_height r \<rparr>"

definition positionOf :: "rat \<times> rat \<times> rat \<times> rat \<Rightarrow> position" where
  "positionOf b =
     (case b of (x, y, w, h) \<Rightarrow>
        \<lparr> pos_x = pxToInch x, pos_y = pxToInch y, pos_w = pxToInch w, pos_h = pxToInch h \<rparr>)"

text \<open>The \<open>position\<close> of a placeholder, image, shape, list or table: the adjusted box.\<close>

definition rectPosition :: "rect \<Rightarrow> position" where
  "rectPosition r = positionOf (left r, top r, rect_width r, rect_height r)"

section \<open>The page script: the rendered tree\<close>

text \<open>The properties of \<open>getComputedStyle\<close> the script reads, as the browser's strings.\<close>

record computed_style =
  cs_fontSize :: string
  cs_fontFamily :: string
  cs_fontWeight :: string
  cs_fontStyle :: string
  cs_textDecoration :: string
  cs_textTransform :: string
  cs_textAlign :: string
  cs_lineHeight :: string
  cs_color :: string
  cs_backgroundColor :: string
  cs_backgroundImage :: string
  cs_opacity :: string
  cs_marginTop :: string
  cs_marginRight :: string
  cs_marginBottom :: string
  cs_marginLeft :: string
  cs_paddingTop :: string
  cs_paddingRight :: string
  cs_paddingBottom :: string
  cs_paddingLeft :: string
  cs_borderWidth :: string
  cs_borderColor :: string
  cs_borderTopWidth :: string
  cs_borderRightWidth :: string
  cs_borderBottomWidth :: string
  cs_borderLeftWidth :: string
  cs_borderTopColor :: string
  cs_borderRightColor :: string
  cs_borderBottomColor :: string
  cs_borderLeftColor :: string
  cs_borderRadius :: string
  cs_boxShadow :: string
  cs_transform :: string
  cs_writingMode :: string

text \<open>
  What the script reads of an element besides its children; \<open>spanProcessed\<close> is
  \<open>dataset.pptxSpanProcessed === 'true'\<close>.
\<close>

record attrs =
  tagName :: string
  className :: string
  elem_id :: string
  elem_src :: string
  spanProcessed :: bool
  computed :: computed_style
  bounds :: rect
  offsetWidth :: rat
  offsetHeight :: rat
  innerText :: string

text \<open>A node: a text node, an element with its children, or another node (a comment).\<close>

datatype node = TextNode string | OtherNode | Element attrs "node list"

fun textContent :: "node \<Rightarrow> string" where
  "textContent (TextNode t) = t"
| "textContent OtherNode = []"
| "textContent (Element a cs) = concat (map textContent cs)"

section \<open>The page script: inline formatting\<close>

definition upper_char :: "char \<Rightarrow> char" where
  "upper_char c =
     (case List.find (\<lambda>p. fst p = c)
             (zip ''abcdefghijklmnopqrstuvwxyz'' ''ABCDEFGHIJKLMNOPQRSTUVWXYZ'') of
        Some p \<Rightarrow> snd p | None \<Rightarrow> c)"

definition lower_char :: "char \<Rightarrow> char" where
  "lower_char c =
     (case List.find (\<lambda>p. fst p = c)
             (zip ''ABCDEFGHIJKLMNOPQRSTUVWXYZ'' ''abcdefghijklmnopqrstuvwxyz'') of
        Some p \<Rightarrow> snd p | None \<Rightarrow> c)"

text \<open>\<open>toUpperCase\<close> and \<open>toLowerCase\<close>, within ASCII.\<close>

definition toUpperCase :: "string \<Rightarrow> string" where
  "toUpperCase s = map upper_char s"

definition toLowerCase :: "string \<Rightarrow> string" where
  "toLowerCase s = map lower_char s"

text \<open>A word character \<open>\w\<close>.\<close>

definition word_char :: "char \<Rightarrow> bool" where
  "word_char c =
     (is_digit c \<or> c = CHR ''_'' \<or> c \<in> set ''abcdefghijklmnopqrstuvwxyz'' \<or>
      c \<in> set ''ABCDEFGHIJKLMNOPQRSTUVWXYZ'')"

text \<open>
  \<open>text.replace(/\b\w/g, c => c.toUpperCase())\<close>: \<open>inWord\<close> tells whether the character
  before is a word character.
\<close>

fun capitalize_from :: "bool \<Rightarrow> string \<Rightarrow> string" where
  "capitalize_from inWord [] = []"
| "capitalize_from inWord (c # cs) =
     (if word_char c then (if inWord then c else upper_char c) # capitalize_from True cs
      else c # capitalize_from False cs)"

definition applyTextTransform :: "string \<Rightarrow> string \<Rightarrow> string" where
  "applyTextTransform t textTransform =
     (if textTransform = ''uppercase'' then toUpperCase t
      else if textTransform = ''lowercase'' then toLowerCase t
      else if textTransform = ''capitalize'' then capitalize_from False t
      else t)"

text \<open>
  \<open>text.replace(/\s+/g, ' ')\<close>: \<open>inSpace\<close> tells whether the character before is white
  space.
\<close>

fun collapse_from :: "bool \<Rightarrow> string \<Rightarrow> string" where
  "collapse_from inSpace [] = []"
| "collapse_from inSpace (c # cs) =
     (if js_space c then (if inSpace then collapse_from True cs
                          else CHR '' '' # collapse_from True cs)
      else c # collapse_from False cs)"

definition collapse_spaces :: "string \<Rightarrow> string" where
  "collapse_spaces s = collapse_from False s"

text \<open>
  \<open>parseInt\<close> of a decimal string: leading white space, an optional sign, digits;
  \<open>None\<close> is \<open>NaN\<close>.
\<close>

definition parseInt :: "string \<Rightarrow> int option" where
  "parseInt s =
     (let t = dropWhile js_space s;
          neg = (case t of [] \<Rightarrow> False | c # _ \<Rightarrow> c = CHR ''-'');
          u = (case t of
                 [] \<Rightarrow> []
               | c # r \<Rightarrow> if c = CHR ''-'' \<or> c = CHR ''+'' then r else t);
          ds = takeWhile is_digit u
      in if ds = [] then None
         else Some (if neg then - int (digits_val ds) else int (digits_val ds)))"

definition isBold :: "computed_style \<Rightarrow> bool" where
  "isBold c =
     (cs_fontWeight c = ''bold'' \<or>
      (case parseInt (cs_fontWeight c) of None \<Rightarrow> False | Some n \<Rightarrow> n \<ge> 600))"

text \<open>\<open>s.replace(/['"]/g, '')\<close>.\<close>

definition strip_quotes :: "string \<Rightarrow> string" where
  "strip_quotes s = filter (\<lambda>c. c \<noteq> CHR 0x27 \<and> c \<noteq> CHR 0x22) s"

definition shouldSkipBold :: "string \<Rightarrow> bool" where
  "shouldSkipBold fontFamily =
     (if fontFamily = [] then False
      else trim (takeWhile (\<lambda>c. c \<noteq> CHR '','') (strip_quotes (toLowerCase fontFamily)))
             \<in> set [''impact''])"

text \<open>\<open>{ ...a, ...b }\<close>: the keys set in \<open>b\<close> win.\<close>

definition over :: "'a option \<Rightarrow> 'a option \<Rightarrow> 'a option" where
  "over a b = (case b of None \<Rightarrow> a | Some v \<Rightarrow> Some v)"

definition merge_options :: "run_options \<Rightarrow> run_options \<Rightarrow> run_options" where
  "merge_options a b =
     \<lparr> ro_bold = over (ro_bold a) (ro_bold b), ro_italic = over (ro_italic a) (ro_italic b),
       ro_underline = over (ro_underline a) (ro_underline b),
       ro_color = over (ro_color a) (ro_color b),
       ro_transparency = over (ro_transparency a) (ro_transparency b),
       ro_fontSize = over (ro_fontSize a) (ro_fontSize b),
       ro_fontFace = over (ro_fontFace a) (ro_fontFace b),
       ro_breakLine = over (ro_breakLine a) (ro_breakLine b),
       ro_bullet = over (ro_bullet a) (ro_bullet b) \<rparr>"

definition no_options :: run_options where
  "no_options =
     \<lparr> ro_bold = None, ro_italic = None, ro_underline = None, ro_color = None,
       ro_transparency = None, ro_fontSize = None, ro_fontFace = None, ro_breakLine = None,
       ro_bullet = None \<rparr>"

text \<open>The icon table, in the order of its entries; the characters are in UTF-8.\<close>

definition iconMap :: "(string \<times> string) list" where
  "iconMap =
     [(''fa-arrow-right'', [CHR 0xE2, CHR 0x86, CHR 0x92]),
      (''fa-arrow-left'', [CHR 0xE2, CHR 0x86, CHR 0x90]),
      (''fa-arrow-down'', [CHR 0xE2, CHR 0x86, CHR 0x93]),
      (''fa-arrow-up'', [CHR 0xE2, CHR 0x86, CHR 0x91]),
      (''fa-chevron-right'', [CHR 0xE2, CHR 0x80, CHR 0xBA]),
      (''fa-chevron-left'', [CHR 0xE2, CHR 0x80, CHR 0xB9]),
      (''fa-arrow-circle-right'', [CHR 0xE2, CHR 0x86, CHR 0x92]),
      (''fa-arrow-circle-left'', [CHR 0xE2, CHR 0x86, CHR 0x90])]"

definition replacementChar :: "string \<Rightarrow> string option" where
  "replacementChar cls =
     map_option snd (List.find (\<lambda>e. str_includes cls (fst e)) iconMap)"

text \<open>
  The colour and font size an inline element adds to the options: \<open>color\<close> and
  \<open>transparency\<close> unless the colour is black, \<open>fontSize\<close> when the style has one.
\<close>

definition color_and_size :: "(string \<Rightarrow> string) \<Rightarrow> computed_style \<Rightarrow> run_options \<Rightarrow> run_options" where
  "color_and_size canvas c opts =
     (let o1 =
            (if cs_color c \<noteq> [] \<and> cs_color c \<noteq> ''rgb(0, 0, 0)'' then
               (let colorRGB = getComputedRGBColor canvas (cs_color c);
                    o0 = opts\<lparr> ro_color := Some (rgbToHex colorRGB) \<rparr>
                in case extractAlpha colorRGB of
                     None \<Rightarrow> o0
                   | Some t \<Rightarrow> o0\<lparr> ro_transparency := Some t \<rparr>)
             else opts)
      in if cs_fontSize c \<noteq> [] then o1\<lparr> ro_fontSize := Some (pxToPoints (cs_fontSize c)) \<rparr>
         else o1)"

definition inline_options :: "(string \<Rightarrow> string) \<Rightarrow> computed_style \<Rightarrow> run_options \<Rightarrow> run_options" where
  "inline_options canvas c baseOptions =
     (let o1 = (if isBold c \<and> \<not> shouldSkipBold (cs_fontFamily c)
                then baseOptions\<lparr> ro_bold := Some True \<rparr> else baseOptions);
          o2 = (if cs_fontStyle c = ''italic'' then o1\<lparr> ro_italic := Some True \<rparr> else o1);
          o3 = (if cs_textDecoration c \<noteq> [] \<and> str_includes (cs_textDecoration c) ''underline''
                then o2\<lparr> ro_underline := Some True \<rparr> else o2)
      in color_and_size canvas c o3)"

definition positive_length :: "string \<Rightarrow> bool" where
  "positive_length v = (v \<noteq> [] \<and> (case parseFloat v of NaN \<Rightarrow> False | Num r \<Rightarrow> r > 0))"

definition margin_message :: "string \<Rightarrow> string \<Rightarrow> string" where
  "margin_message tag side =
     ''Inline element <'' @ toLowerCase tag @ ''> has margin-'' @ side @
     '' which is not supported in PowerPoint. Remove margin from inline elements.''"

definition marginErrors :: "string \<Rightarrow> computed_style \<Rightarrow> string list" where
  "marginErrors tag c =
     (if positive_length (cs_marginLeft c) then [margin_message tag ''left''] else []) @
     (if positive_length (cs_marginRight c) then [margin_message tag ''right''] else []) @
     (if positive_length (cs_marginTop c) then [margin_message tag ''top''] else []) @
     (if positive_length (cs_marginBottom c) then [margin_message tag ''bottom''] else [])"

definition inline_tags :: "string list" where
  "inline_tags = [''SPAN'', ''B'', ''STRONG'', ''I'', ''EM'', ''U'']"

text \<open>A text fragment joins the last run after a text node, else starts a run.\<close>

definition add_fragment :: "bool \<Rightarrow> string \<Rightarrow> run_options \<Rightarrow> run list \<Rightarrow> run list" where
  "add_fragment prevNodeIsText t baseOptions runs =
     (if prevNodeIsText \<and> runs \<noteq> []
      then butlast runs @ [(last runs)\<lparr> run_text := run_text (last runs) @ t \<rparr>]
      else runs @ [\<lparr> run_text = t, run_options = baseOptions \<rparr>])"

text \<open>
  The trimming at the end of every call of \<open>parseInlineFormatting\<close>, nested calls
  included: leading white space of \<open>runs[0]\<close>, then trailing white space of the last
  run, in the shared array.
\<close>

definition trim_ends :: "run list \<Rightarrow> run list" where
  "trim_ends runs =
     (case runs of
        [] \<Rightarrow> []
      | r # rest \<Rightarrow>
          (let rs1 = r\<lparr> run_text := trimStart (run_text r) \<rparr> # rest
           in butlast rs1 @ [(last rs1)\<lparr> run_text := trimEnd (run_text (last rs1)) \<rparr>]))"

text \<open>
  One pass of \<open>element.childNodes.forEach\<close>.  The state is \<open>prevNodeIsText\<close>, the shared
  \<open>runs\<close> array and the \<open>errors\<close> array of the script.  For an inline element the
  recursive call is the loop over its children, from \<open>prevNodeIsText = false\<close>,
  followed by its trimming; the array it returns is dropped.
\<close>

fun forEach_node ::
    "(string \<Rightarrow> string) \<Rightarrow> run_options \<Rightarrow> (string \<Rightarrow> string) \<Rightarrow> bool \<Rightarrow> node \<Rightarrow>
     bool \<times> run list \<times> string list \<Rightarrow> bool \<times> run list \<times> string list" where
  "forEach_node canvas baseOptions textTransform preserveSpaces (TextNode t) st =
     (case st of (prevNodeIsText, runs, errs) \<Rightarrow>
        if preserveSpaces then
          (if \<not> str_includes t newline \<and> trim t = [] then st
           else (True, add_fragment prevNodeIsText (textTransform t) baseOptions runs, errs))
        else (True, add_fragment prevNodeIsText (textTransform (collapse_spaces t))
                      baseOptions runs, errs))"
| "forEach_node canvas baseOptions textTransform preserveSpaces OtherNode st =
     (case st of (prevNodeIsText, runs, errs) \<Rightarrow> (False, runs, errs))"
| "forEach_node canvas baseOptions textTransform preserveSpaces (Element a cs) st =
     (case st of (prevNodeIsText, runs, errs) \<Rightarrow>
        if tagName a = ''BR'' then (True, add_fragment prevNodeIsText newline baseOptions runs, errs)
        else if trim (concat (map textContent cs)) \<noteq> [] \<and> tagName a \<in> set inline_tags then
          (case (if tagName a = ''I'' \<and> className a \<noteq> [] \<and> str_includes (className a) ''fa-''
                 then replacementChar (className a) else None) of
             Some ch \<Rightarrow>
               (let options = color_and_size canvas (computed a) baseOptions
                in if prevNodeIsText \<and> runs \<noteq> []
                   then (True,
                         butlast runs @
                           [\<lparr> run_text = run_text (last runs) @ '' '' @ ch,
                              run_options = merge_options (run_options (last runs)) options \<rparr>],
                         errs)
                   else (True, runs @ [\<lparr> run_text = ch, run_options = options \<rparr>], errs))
           | None \<Rightarrow>
               (let options = inline_options canvas (computed a) baseOptions;
                    tt = (if cs_textTransform (computed a) \<noteq> [] \<and>
                             cs_textTransform (computed a) \<noteq> ''none''
                          then (\<lambda>t. applyTextTransform t (cs_textTransform (computed a)))
                          else textTransform);
                    errs1 = errs @ marginErrors (tagName a) (computed a)
                in case fold (forEach_node canvas options tt preserveSpaces) cs
                          (False, runs, errs1) of
                     (p, runs2, errs2) \<Rightarrow> (False, trim_ends runs2, errs2)))
        else (False, runs, errs))"

text \<open>
  \<open>parseInlineFormatting(element, baseOptions, runs, baseTextTransform, preserveSpaces)\<close>
  on the children of \<open>element\<close>: the array it returns, the \<open>runs\<close> array as it leaves
  it, and the \<open>errors\<close> array.
\<close>

definition parseInlineFormatting ::
    "(string \<Rightarrow> string) \<Rightarrow> node list \<Rightarrow> run_options \<Rightarrow> run list \<Rightarrow> (string \<Rightarrow> string) \<Rightarrow> bool \<Rightarrow>
     string list \<Rightarrow> run list \<times> run list \<times> string list" where
  "parseInlineFormatting canvas childNodes baseOptions runs baseTextTransform preserveSpaces errs =
     (case fold (forEach_node canvas baseOptions baseTextTransform preserveSpaces) childNodes
             (False, runs, errs) of
        (p, runs1, errs1) \<Rightarrow>
          (let runs2 = trim_ends runs1
           in (filter (\<lambda>r. length (run_text r) > 0) runs2, runs2, errs1)))"

section \<open>The page script: lists\<close>

text \<open>An element: what the script reads of it, and its child nodes.\<close>

type_synonym elem = "attrs \<times> node list"

definition elemText :: "elem \<Rightarrow> string" where
  "elemText e = concat (map textContent (snd e))"

text \<open>
  The element descendants of a node in document order, each with the tag of its parent
  and whether a \<open>THEAD\<close> stands between it and the node (\<open>inThead\<close> for the node itself).
\<close>

fun descendants_in :: "bool \<Rightarrow> node \<Rightarrow> (bool \<times> string \<times> elem) list" where
  "descendants_in inThead (TextNode t) = []"
| "descendants_in inThead OtherNode = []"
| "descendants_in inThead (Element a cs) =
     concat (map (\<lambda>c. (case c of
                          Element b ds \<Rightarrow> [(inThead \<or> tagName a = ''THEAD'', tagName a, (b, ds))]
                        | _ \<Rightarrow> []) @
                       descendants_in (inThead \<or> tagName a = ''THEAD'') c) cs)"

text \<open>\<open>el.querySelectorAll\<close> with a list of tag names as the selector.\<close>

definition querySelectorAll :: "string list \<Rightarrow> elem \<Rightarrow> elem list" where
  "querySelectorAll tags e =
     filter (\<lambda>d. tagName (fst d) \<in> set tags)
       (map (\<lambda>d. snd (snd d)) (descendants_in False (Element (fst e) (snd e))))"

text \<open>The bullet characters of \<open>/^[...]\s*/\<close> in a list item, in UTF-8.\<close>

definition list_bullets :: "string list" where
  "list_bullets =
     [[CHR 0xE2, CHR 0x80, CHR 0xA2], ''-'', ''*'', [CHR 0xE2, CHR 0x96, CHR 0xAA],
      [CHR 0xE2, CHR 0x96, CHR 0xB8]]"

definition strip_bullet :: "string \<Rightarrow> string" where
  "strip_bullet t =
     (case List.find (\<lambda>b. startsWith t b) list_bullets of
        None \<Rightarrow> t
      | Some b \<Rightarrow> dropWhile js_space (drop (length b) t))"

definition textIndent :: rat where "textIndent = 3"

text \<open>
  The runs of one list item: the first run loses a manual bullet and gets
  \<open>bullet: { indent }\<close>, the last run of an item that is not the last gets \<open>breakLine\<close>.
\<close>

definition item_runs :: "bool \<Rightarrow> run list \<Rightarrow> run list" where
  "item_runs isLast runs =
     (case runs of
        [] \<Rightarrow> []
      | r # rest \<Rightarrow>
          (let rs1 = r\<lparr> run_text := strip_bullet (run_text r),
                         run_options := (run_options r)\<lparr> ro_bullet := Some textIndent \<rparr> \<rparr> # rest
           in if isLast then rs1
              else butlast rs1 @
                   [(last rs1)\<lparr> run_options := (run_options (last rs1))\<lparr> ro_breakLine := Some True \<rparr> \<rparr>]))"

text \<open>\<open>liElements.forEach\<close>: the items and the errors of the script.\<close>

fun list_items :: "(string \<Rightarrow> string) \<Rightarrow> elem list \<Rightarrow> string list \<Rightarrow> run list \<times> string list" where
  "list_items canvas [] errs = ([], errs)"
| "list_items canvas (li # lis) errs =
     (case parseInlineFormatting canvas (snd li)
             (no_options\<lparr> ro_breakLine := Some False \<rparr>) [] (\<lambda>x. x) False errs of
        (runs, arr, errs1) \<Rightarrow>
          (case list_items canvas lis errs1 of
             (items, errs2) \<Rightarrow> (item_runs (lis = []) runs @ items, errs2)))"

text \<open>
  \<open>computed.fontFamily.split(',')[0].replace(/['"]/g, '').trim()\<close>; the first part of
  the split is the text before the first comma.
\<close>

definition fontFace_of :: "string \<Rightarrow> string" where
  "fontFace_of fontFamily = trim (strip_quotes (takeWhile (\<lambda>c. c \<noteq> CHR '','') fontFamily))"

definition align_of :: "string \<Rightarrow> string" where
  "align_of textAlign = (if textAlign = ''start'' then ''left'' else textAlign)"

definition listStyle :: "(string \<Rightarrow> string) \<Rightarrow> computed_style \<Rightarrow> computed_style \<Rightarrow> text_style" where
  "listStyle canvas ulComputed c =
     \<lparr> fontSize = Math_max (pxToPoints (cs_fontSize c)) 6,
       fontFace = fontFace_of (cs_fontFamily c),
       color = rgbToHex (getComputedRGBColor canvas (cs_color c)),
       align = align_of (cs_textAlign c),
       lineSpacing = (if cs_lineHeight c \<noteq> [] \<and> cs_lineHeight c \<noteq> ''normal''
                      then Some (pxToPoints (cs_lineHeight c)) else None),
       paraSpaceBefore = Num 0,
       paraSpaceAfter = pxToPoints (cs_marginBottom c),
       margin = [num_map (\<lambda>v. v * (7 / 10)) (pxToPoints (cs_paddingLeft ulComputed)),
                 Num 0, Num 0, Num 0],
       transparency = extractAlpha (cs_color c),
       rotate = None, bold = None, italic = None, underline = None \<rparr>"

text \<open>
  The list branch for a \<open>UL\<close> or \<open>OL\<close> element with adjusted box \<open>r\<close>: the element
  pushed, if any, and the errors.  The style is that of the first item, or of the list
  when it has no item.
\<close>

definition extractList ::
    "(string \<Rightarrow> string) \<Rightarrow> rect \<Rightarrow> elem \<Rightarrow> string list \<Rightarrow> element list \<times> string list" where
  "extractList canvas r e errs =
     (if rect_width r = 0 \<or> rect_height r = 0 then ([], errs)
      else
        (let liElements = querySelectorAll [''LI''] e;
             c = (case liElements of [] \<Rightarrow> computed (fst e) | li # _ \<Rightarrow> computed (fst li))
         in case list_items canvas liElements errs of
              (items, errs1) \<Rightarrow>
                ([ListBlock items (rectPosition r) (listStyle canvas (computed (fst e)) c)],
                 errs1)))"

section \<open>The page script: tables\<close>

text \<open>
  \<open>el.querySelectorAll('tr')\<close>, with the context of each row.  A table is taken not to
  stand inside the head of another table.
\<close>

definition table_rows :: "elem \<Rightarrow> (bool \<times> string \<times> elem) list" where
  "table_rows tbl =
     filter (\<lambda>d. tagName (fst (snd (snd d))) = ''TR'')
       (descendants_in False (Element (fst tbl) (snd tbl)))"

text \<open>\<open>rows.filter(row => row.parentElement.tagName !== 'THEAD')\<close>.\<close>

definition dataRows :: "elem \<Rightarrow> elem list" where
  "dataRows tbl = map (\<lambda>d. snd (snd d)) (filter (\<lambda>d. fst (snd d) \<noteq> ''THEAD'') (table_rows tbl))"

text \<open>\<open>el.querySelector('thead tr')\<close>.\<close>

definition headerRow :: "elem \<Rightarrow> elem option" where
  "headerRow tbl = map_option (\<lambda>d. snd (snd d)) (List.find fst (table_rows tbl))"

definition width_of :: "elem \<Rightarrow> rat" where
  "width_of e = rect_width (bounds (fst e))"

text \<open>
  The column widths: the rendered widths of the \<open>TH\<close> cells of the header row, or of
  the \<open>TH\<close> cells of the first data row, or of its \<open>TD\<close> cells, over the table width.
\<close>

definition colWidthsOf :: "rat \<Rightarrow> elem \<Rightarrow> rat list" where
  "colWidthsOf tableWidth tbl =
     (case headerRow tbl of
        Some hr \<Rightarrow> map (\<lambda>th. width_of th / tableWidth) (querySelectorAll [''TH''] hr)
      | None \<Rightarrow>
          (case dataRows tbl of
             [] \<Rightarrow> []
           | row0 # _ \<Rightarrow>
               (let thElements = filter (\<lambda>c. tagName (fst c) = ''TH'')
                                   (querySelectorAll [''TH'', ''TD''] row0)
                in if thElements \<noteq> []
                   then map (\<lambda>th. width_of th / tableWidth) thElements
                   else map (\<lambda>td. width_of td / tableWidth) (querySelectorAll [''TD''] row0))))"

definition usable_bg :: "string \<Rightarrow> bool" where
  "usable_bg c = (c \<noteq> [] \<and> c \<noteq> ''transparent'' \<and> c \<noteq> ''rgba(0, 0, 0, 0)'')"

definition usable_header_bg :: "string \<Rightarrow> bool" where
  "usable_header_bg c = (usable_bg c \<and> c \<noteq> ''rgba(255, 255, 255, 0)'')"

text \<open>The table cell font size: scaled by 0.85, at least 6.\<close>

definition cellFontSize :: "computed_style \<Rightarrow> jsnum" where
  "cellFontSize c = Math_max (num_map (\<lambda>v. v * (17 / 20)) (pxToPoints (cs_fontSize c))) 6"

text \<open>
  A cell of the header row.  Its background is its own, else that of the \<open>THEAD\<close>, else
  that of the row.
\<close>

definition headerCell ::
    "(string \<Rightarrow> string) \<Rightarrow> computed_style option \<Rightarrow> computed_style \<Rightarrow> elem \<Rightarrow> cell" where
  "headerCell canvas theadComputed rowComputed th =
     (let c = computed (fst th);
          cellBg = cs_backgroundColor c;
          bg1 = (if usable_header_bg cellBg then Some cellBg
                 else case theadComputed of
                        None \<Rightarrow> None
                      | Some tc \<Rightarrow>
                          if usable_header_bg (cs_backgroundColor tc)
                          then Some (cs_backgroundColor tc) else None);
          bg2 = (if bg1 = None \<and> usable_header_bg (cs_backgroundColor rowComputed)
                 then Some (cs_backgroundColor rowComputed) else bg1)
      in \<lparr> cell_text = Plain (trim (elemText th)),
           cell_opts =
             \<lparr> cell_bold = (isBold c \<and> \<not> shouldSkipBold (cs_fontFamily c)),
               cell_color = rgbToHex (getComputedRGBColor canvas (cs_color c)),
               cell_fontSize = cellFontSize c,
               cell_fontFace = fontFace_of (cs_fontFamily c),
               cell_margin = [pxToPoints (cs_paddingTop c), pxToPoints (cs_paddingRight c),
                              pxToPoints (cs_paddingBottom c), pxToPoints (cs_paddingLeft c)],
               cell_fill = map_option rgbToHex bg2 \<rparr> \<rparr>)"

text \<open>
  \<open>Object.keys(r.options).some(k => k !== 'fontSize' && k !== 'fontFace')\<close>: a key other
  than the font size and face is set.
\<close>

definition has_other_key :: "run_options \<Rightarrow> bool" where
  "has_other_key ro =
     (ro_bold ro \<noteq> None \<or> ro_italic ro \<noteq> None \<or> ro_underline ro \<noteq> None \<or> ro_color ro \<noteq> None \<or>
      ro_transparency ro \<noteq> None \<or> ro_breakLine ro \<noteq> None \<or> ro_bullet ro \<noteq> None)"

definition td_is_not_defined :: string where
  "td_is_not_defined = ''ReferenceError: td is not defined''"

text \<open>
  A cell of a data row.  Where a cell with inline formatting yields no run that
  carries a style, the source reads \<open>td.textContent\<close>; no \<open>td\<close> is in scope there, so
  the script throws (\<open>Inl\<close>).
\<close>

definition dataCell ::
    "(string \<Rightarrow> string) \<Rightarrow> string \<Rightarrow> elem \<Rightarrow> string list \<Rightarrow> string + cell \<times> string list" where
  "dataCell canvas rowBgColor cl errs =
     (let c = computed (fst cl);
          hasInlineFormatting =
            (querySelectorAll [''SPAN'', ''B'', ''STRONG'', ''I'', ''EM'', ''U''] cl \<noteq> []);
          fsz = cellFontSize c;
          face = fontFace_of (cs_fontFamily c);
          col = rgbToHex (getComputedRGBColor canvas (cs_color c));
          opts = \<lparr> cell_bold = False, cell_color = col, cell_fontSize = fsz,
                   cell_fontFace = face,
                   cell_margin = [pxToPoints_num (parseFloat (cs_paddingTop c)),
                                  pxToPoints_num (parseFloat (cs_paddingRight c)),
                                  pxToPoints_num (parseFloat (cs_paddingBottom c)),
                                  pxToPoints_num (parseFloat (cs_paddingLeft c))],
                   cell_fill =
                     (if usable_bg (cs_backgroundColor c)
                      then Some (rgbToHex (cs_backgroundColor c))
                      else if usable_bg rowBgColor then Some (rgbToHex rowBgColor)
                      else None) \<rparr>
      in if hasInlineFormatting then
           (case parseInlineFormatting canvas (snd cl)
                   (no_options\<lparr> ro_fontSize := Some fsz, ro_fontFace := Some face,
                                ro_color := Some col \<rparr>) [] (\<lambda>x. x) False errs of
              (runs, arr, errs1) \<Rightarrow>
                if runs \<noteq> [] \<and> list_ex (\<lambda>r. has_other_key (run_options r)) runs
                then Inr (\<lparr> cell_text = Runs runs, cell_opts = opts \<rparr>, errs1)
                else Inl td_is_not_defined)
         else
           Inr (\<lparr> cell_text = Plain (trim (elemText cl)),
                  cell_opts = opts\<lparr> cell_bold := (isBold c \<and> \<not> shouldSkipBold (cs_fontFamily c)) \<rparr> \<rparr>,
                errs))"

text \<open>\<open>cells.map(cell => ...)\<close> over the cells of one data row.\<close>

fun dataCells ::
    "(string \<Rightarrow> string) \<Rightarrow> string \<Rightarrow> elem list \<Rightarrow> string list \<Rightarrow> string + cell list \<times> string list" where
  "dataCells canvas rowBgColor [] errs = Inr ([], errs)"
| "dataCells canvas rowBgColor (cl # cls) errs =
     (case dataCell canvas rowBgColor cl errs of
        Inl e \<Rightarrow> Inl e
      | Inr (v, errs1) \<Rightarrow>
          (case dataCells canvas rowBgColor cls errs1 of
             Inl e \<Rightarrow> Inl e
           | Inr (vs, errs2) \<Rightarrow> Inr (v # vs, errs2)))"

text \<open>The cells of a data row: its \<open>TH\<close> cells if it has any, else its \<open>TD\<close> cells.\<close>

definition rowCellsOf :: "elem \<Rightarrow> elem list" where
  "rowCellsOf row =
     (let rowCells = querySelectorAll [''TH'', ''TD''] row
      in if list_ex (\<lambda>c. tagName (fst c) = ''TH'') rowCells
         then filter (\<lambda>c. tagName (fst c) = ''TH'') rowCells
         else querySelectorAll [''TD''] row)"

text \<open>\<open>dataRows.forEach(row => ...)\<close>.\<close>

fun dataRowsData ::
    "(string \<Rightarrow> string) \<Rightarrow> elem list \<Rightarrow> string list \<Rightarrow> string + cell list list \<times> string list" where
  "dataRowsData canvas [] errs = Inr ([], errs)"
| "dataRowsData canvas (row # rows) errs =
     (case dataCells canvas (cs_backgroundColor (computed (fst row))) (rowCellsOf row) errs of
        Inl e \<Rightarrow> Inl e
      | Inr (rowData, errs1) \<Rightarrow>
          (case dataRowsData canvas rows errs1 of
             Inl e \<Rightarrow> Inl e
           | Inr (rest, errs2) \<Rightarrow> Inr (rowData # rest, errs2)))"

definition headerRowData :: "(string \<Rightarrow> string) \<Rightarrow> elem \<Rightarrow> elem \<Rightarrow> cell list" where
  "headerRowData canvas tbl hr =
     (let theadComputed = (case querySelectorAll [''THEAD''] tbl of
                             [] \<Rightarrow> None
                           | theadEl # _ \<Rightarrow> Some (computed (fst theadEl)))
      in map (headerCell canvas theadComputed (computed (fst hr))) (querySelectorAll [''TH''] hr))"

text \<open>The \<open>style\<close> of a table element; its font size is not floored.\<close>

definition tableStyle :: "computed_style \<Rightarrow> table_style" where
  "tableStyle tc =
     \<lparr> table_fontSize = pxToPoints (cs_fontSize tc),
       table_fontFace = fontFace_of (cs_fontFamily tc),
       table_color = rgbToHex (cs_color tc),
       table_transparency = extractAlpha (cs_color tc),
       table_border_color = rgbToHex (cs_borderColor tc),
       table_border_width = pxToPoints (cs_borderWidth tc) \<rparr>"

text \<open>
  The table branch for a \<open>TABLE\<close> element with adjusted box \<open>r\<close>: the element pushed,
  if any, and the errors; \<open>Inl\<close> when the script throws.
\<close>

definition extractTable ::
    "(string \<Rightarrow> string) \<Rightarrow> rect \<Rightarrow> elem \<Rightarrow> string list \<Rightarrow> string + element list \<times> string list" where
  "extractTable canvas r tbl errs =
     (if rect_width r = 0 \<or> rect_height r = 0 then Inr ([], errs)
      else
        (let colWidths = colWidthsOf (rect_width r) tbl;
             hdr = (case headerRow tbl of
                      None \<Rightarrow> []
                    | Some hr \<Rightarrow> [headerRowData canvas tbl hr])
         in case dataRowsData canvas (dataRows tbl) errs of
              Inl e \<Rightarrow> Inl e
            | Inr (rowsData, errs1) \<Rightarrow>
                Inr ([TableBlock (hdr @ rowsData) colWidths (rectPosition r)
                        (tableStyle (computed (fst tbl)))], errs1)))"

section \<open>The page script: placeholders, images and shapes\<close>

definition textTags :: "string list" where
  "textTags = [''P'', ''H1'', ''H2'', ''H3'', ''H4'', ''H5'', ''H6'', ''UL'', ''OL'', ''LI'',
               ''SPAN'', ''I'', ''PRE'', ''CODE'']"

text \<open>\<open>hasBorder\<close> and \<open>hasShadow\<close> as the check of the text tags computes them.\<close>

definition style_hasBorder :: "computed_style \<Rightarrow> bool" where
  "style_hasBorder c =
     (positive_length (cs_borderWidth c) \<or> positive_length (cs_borderTopWidth c) \<or>
      positive_length (cs_borderRightWidth c) \<or> positive_length (cs_borderBottomWidth c) \<or>
      positive_length (cs_borderLeftWidth c))"

definition hasShadow :: "computed_style \<Rightarrow> bool" where
  "hasShadow c = (cs_boxShadow c \<noteq> [] \<and> cs_boxShadow c \<noteq> ''none'')"

definition text_style_message :: "string \<Rightarrow> computed_style \<Rightarrow> string" where
  "text_style_message tag c =
     ''Text element <'' @ toLowerCase tag @ ''> has '' @
     (if hasBg (cs_backgroundColor c) then ''background''
      else if style_hasBorder c then ''border'' else ''shadow'') @
     ''. Backgrounds, borders, and shadows are only supported on <div> elements, not text elements.''"

text \<open>The placeholder branch: the placeholder pushed, or the error.\<close>

definition extractPlaceholder :: "rect \<Rightarrow> attrs \<Rightarrow> nat \<Rightarrow> placeholder list \<times> string list" where
  "extractPlaceholder r a n =
     (if rect_width r = 0 \<or> rect_height r = 0
      then ([], [''Placeholder '' @ dquote @
                 (if elem_id a \<noteq> [] then elem_id a else ''unnamed'') @ dquote @ '' has '' @
                 (if rect_width r = 0 then ''width: 0'' else ''height: 0'') @
                 ''. Check the layout CSS.''])
      else ([\<lparr> ph_id = (if elem_id a \<noteq> [] then elem_id a else ''placeholder-'' @ nat_digits n),
                ph_x = pxToInch (left r), ph_y = pxToInch (top r),
                ph_w = pxToInch (rect_width r), ph_h = pxToInch (rect_height r) \<rparr>], []))"

text \<open>The unwrapped text findings of a container, one per non-blank text child.\<close>

definition unwrappedTextErrors :: "node list \<Rightarrow> string list" where
  "unwrappedTextErrors cs =
     concat (map (\<lambda>n. case n of
                         TextNode t \<Rightarrow>
                           if trim t \<noteq> [] then
                             [''DIV element contains unwrapped text '' @ dquote @
                              textPrefix (trim t) @ dquote @ ''. '' @
                              ''All text must be wrapped in <p>, <h1>-<h6>, <ul>, or <ol> tags to appear in PowerPoint.'']
                           else []
                       | _ \<Rightarrow> []) cs)"

text \<open>\<open>parseFloat(b) || 0\<close>.\<close>

definition float_or_0 :: "string \<Rightarrow> rat" where
  "float_or_0 b = (case parseFloat b of NaN \<Rightarrow> 0 | Num v \<Rightarrow> v)"

text \<open>
  One line of a non-uniform border, for an edge of positive width: \<open>ends inset\<close> gives
  \<open>(x1, y1, x2, y2)\<close> from the inset, half the line width in inches.
\<close>

definition borderLine ::
    "string \<Rightarrow> string \<Rightarrow> (jsnum \<Rightarrow> jsnum \<times> jsnum \<times> jsnum \<times> jsnum) \<Rightarrow> element list" where
  "borderLine bw col ends =
     (if (case parseFloat bw of NaN \<Rightarrow> False | Num v \<Rightarrow> v > 0) then
        (let widthPt = pxToPoints bw;
             inset = num_map (\<lambda>v. v / 72 / 2) widthPt
         in case ends inset of
              (x1, y1, x2, y2) \<Rightarrow> [Line x1 y1 x2 y2 widthPt (rgbToHex col)])
      else [])"

definition borderLines :: "rect \<Rightarrow> computed_style \<Rightarrow> element list" where
  "borderLines r c =
     (let x = pxToInch (left r); y = pxToInch (top r);
          w = pxToInch (rect_width r); h = pxToInch (rect_height r)
      in borderLine (cs_borderTopWidth c) (cs_borderTopColor c)
           (\<lambda>i. (Num x, num_map (\<lambda>v. y + v) i, Num (x + w), num_map (\<lambda>v. y + v) i)) @
         borderLine (cs_borderRightWidth c) (cs_borderRightColor c)
           (\<lambda>i. (num_map (\<lambda>v. x + w - v) i, Num y, num_map (\<lambda>v. x + w - v) i, Num (y + h))) @
         borderLine (cs_borderBottomWidth c) (cs_borderBottomColor c)
           (\<lambda>i. (Num x, num_map (\<lambda>v. y + h - v) i, Num (x + w), num_map (\<lambda>v. y + h - v) i)) @
         borderLine (cs_borderLeftWidth c) (cs_borderLeftColor c)
           (\<lambda>i. (num_map (\<lambda>v. x + v) i, Num y, num_map (\<lambda>v. x + v) i, Num (y + h))))"

definition rectRadiusOf :: "rect \<Rightarrow> string \<Rightarrow> jsnum" where
  "rectRadiusOf r radius =
     (case parseFloat radius of
        NaN \<Rightarrow> NaN
      | Num radiusValue \<Rightarrow>
          if radiusValue = 0 then Num 0
          else if str_includes radius ''%'' then
            (if radiusValue \<ge> 50 then Num 1
             else Num (radiusValue / 100 * pxToInch (min (rect_width r) (rect_height r))))
          else if str_includes radius ''pt'' then Num (radiusValue / 72)
          else Num (radiusValue / PX_PER_IN))"

text \<open>
  The container branch for a \<open>DIV\<close> with adjusted box \<open>r\<close>: the elements pushed, the
  errors pushed, and whether the branch returned (else the element falls through to
  the branches below).  \<open>parseBoxShadow\<close>, which needs an arc tangent and a square
  root, is taken as a parameter.
\<close>

definition extractShape ::
    "(string \<Rightarrow> string) \<Rightarrow> (string \<Rightarrow> shadow_spec option) \<Rightarrow> rect \<Rightarrow> elem \<Rightarrow>
     element list \<times> string list \<times> bool" where
  "extractShape canvas parseBoxShadow r e =
     (let c = computed (fst e);
          errs = unwrappedTextErrors (snd e)
      in if cs_backgroundImage c \<noteq> [] \<and> cs_backgroundImage c \<noteq> ''none'' then
           ([], errs @ [''Background images on DIV elements are not supported. '' @
                        ''Use solid colors or borders for shapes, or use slide.addImage() in PptxGenJS to layer images.''],
            True)
         else
           (let borders = map float_or_0 [cs_borderTopWidth c, cs_borderRightWidth c,
                                          cs_borderBottomWidth c, cs_borderLeftWidth c];
                hasBorder = list_ex (\<lambda>b. b > 0) borders;
                hasUniformBorder =
                  (hasBorder \<and> list_all (\<lambda>b. b = float_or_0 (cs_borderTopWidth c)) borders);
                lines = (if hasBorder \<and> \<not> hasUniformBorder then borderLines r c else [])
            in if (hasBg (cs_backgroundColor c) \<or> hasBorder) \<and>
                  rect_width r > 0 \<and> rect_height r > 0
               then
                 ((if hasBg (cs_backgroundColor c) \<or> hasUniformBorder then
                     [Shape (rectPosition r)
                        \<lparr> shape_fill =
                            (if hasBg (cs_backgroundColor c)
                             then Some (rgbToHex (getComputedRGBColor canvas (cs_backgroundColor c)))
                             else None),
                          shape_transparency =
                            shapeTransparency canvas (cs_backgroundColor c) (cs_opacity c),
                          shape_line =
                            (if hasUniformBorder
                             then Some (rgbToHex (getComputedRGBColor canvas (cs_borderColor c)),
                                        pxToPoints (cs_borderWidth c))
                             else None),
                          rectRadius = rectRadiusOf r (cs_borderRadius c),
                          shape_shadow = parseBoxShadow (cs_boxShadow c) \<rparr>]
                   else []) @ lines,
                  errs, True)
               else ([], errs, False)))"

section \<open>The page script: text elements\<close>

text \<open>The bullet characters of \<open>/^[...]\s/\<close> in a text element, in UTF-8.\<close>

definition text_bullets :: "string list" where
  "text_bullets =
     [[CHR 0xE2, CHR 0x80, CHR 0xA2], ''-'', ''*'', [CHR 0xE2, CHR 0x96, CHR 0xAA],
      [CHR 0xE2, CHR 0x96, CHR 0xB8], [CHR 0xE2, CHR 0x97, CHR 0x8B],
      [CHR 0xE2, CHR 0x97, CHR 0x8F], [CHR 0xE2, CHR 0x97, CHR 0x86],
      [CHR 0xE2, CHR 0x97, CHR 0x87], [CHR 0xE2, CHR 0x96, CHR 0xA0],
      [CHR 0xE2, CHR 0x96, CHR 0xA1]]"

definition starts_with_bullet :: "string \<Rightarrow> bool" where
  "starts_with_bullet t =
     (case List.find (\<lambda>b. startsWith t b) text_bullets of
        None \<Rightarrow> False
      | Some b \<Rightarrow> (case drop (length b) t of [] \<Rightarrow> False | c # _ \<Rightarrow> js_space c))"

definition baseStyle :: "(string \<Rightarrow> string) \<Rightarrow> computed_style \<Rightarrow> jsnum option \<Rightarrow> text_style" where
  "baseStyle canvas c rotation =
     \<lparr> fontSize = Math_max (pxToPoints (cs_fontSize c)) 6,
       fontFace = fontFace_of (cs_fontFamily c),
       color = rgbToHex (getComputedRGBColor canvas (cs_color c)),
       align = align_of (cs_textAlign c),
       lineSpacing = Some (pxToPoints (cs_lineHeight c)),
       paraSpaceBefore = pxToPoints (cs_marginTop c),
       paraSpaceAfter = pxToPoints (cs_marginBottom c),
       margin = [pxToPoints (cs_paddingLeft c), pxToPoints (cs_paddingRight c),
                 pxToPoints (cs_paddingBottom c), pxToPoints (cs_paddingTop c)],
       transparency = extractAlpha (cs_color c),
       rotate = rotation,
       bold = None, italic = None, underline = None \<rparr>"

text \<open>A truthy \<open>lineSpacing\<close>: a number other than \<open>0\<close>.\<close>

definition truthy_num :: "jsnum option \<Rightarrow> bool" where
  "truthy_num v = (case v of Some (Num r) \<Rightarrow> r \<noteq> 0 | _ \<Rightarrow> False)"

text \<open>\<open>r.options?.fontSize || 0\<close>.\<close>

definition run_fontSize :: "run \<Rightarrow> rat" where
  "run_fontSize r = (case ro_fontSize (run_options r) of Some (Num v) \<Rightarrow> v | _ \<Rightarrow> 0)"

text \<open>The tighter line spacing of a code block.\<close>

definition preStyle :: "text_style \<Rightarrow> text_style" where
  "preStyle st =
     (if truthy_num (lineSpacing st)
      then st\<lparr> lineSpacing := Some (num_map (\<lambda>f. f * (5 / 4)) (fontSize st)) \<rparr>
      else st)"

text \<open>The line spacing scaled up to the largest font size of the runs.\<close>

definition runsStyle :: "run list \<Rightarrow> text_style \<Rightarrow> text_style" where
  "runsStyle runs st =
     (case (lineSpacing st, fontSize st) of
        (Some (Num ls), Num fs) \<Rightarrow>
          (let maxFontSize = fold max (map run_fontSize runs) fs
           in if ls \<noteq> 0 \<and> maxFontSize > fs
              then st\<lparr> lineSpacing := Some (Num (maxFontSize * (ls / fs))) \<rparr>
              else st)
      | _ \<Rightarrow> st)"

text \<open>
  The text branch for an element of a text tag that is not skipped, with adjusted box
  \<open>r\<close>: the element pushed, if any, and the errors.
\<close>

definition extractText ::
    "(string \<Rightarrow> string) \<Rightarrow> (rat \<Rightarrow> rat \<Rightarrow> int) \<Rightarrow> rect \<Rightarrow> elem \<Rightarrow> string list \<Rightarrow>
     element list \<times> string list" where
  "extractText canvas atan2_deg r e errs =
     (let a = fst e; c = computed a; t = trim (elemText e)
      in if rect_width r = 0 \<or> rect_height r = 0 \<or> t = [] then ([], errs)
         else if tagName a \<noteq> ''LI'' \<and> tagName a \<noteq> ''SPAN'' \<and> starts_with_bullet (trimStart t) then
           ([], errs @ [''Text element <'' @ toLowerCase (tagName a) @
                        ''> starts with bullet symbol '' @ dquote @ take 20 t @ ''...'' @ dquote @
                        ''. Use <ul> or <ol> lists instead of manual bullet symbols.''])
         else
           (let rotation = getRotation atan2_deg (cs_transform c) (cs_writingMode c);
                pos = positionOf (getPositionAndSize (offsetWidth a) (offsetHeight a) r rotation);
                st = baseStyle canvas c rotation;
                ty = toLowerCase (tagName a);
                hasFormatting =
                  (querySelectorAll [''B'', ''I'', ''U'', ''STRONG'', ''EM'', ''SPAN'', ''BR''] e \<noteq> []);
                isPreElement = (tagName a = ''PRE'' \<or> tagName a = ''CODE'')
            in if hasFormatting \<and> isPreElement then
                 (if querySelectorAll [''BR''] e \<noteq> [] \<and> querySelectorAll [''SPAN''] e = [] then
                    ([TextBlock ty (Plain (trim (innerText a))) pos (preStyle st)], errs)
                  else
                    (case parseInlineFormatting canvas (snd e) no_options [] (\<lambda>x. x) True errs of
                       (runs, arr, errs1) \<Rightarrow> ([TextBlock ty (Runs runs) pos (preStyle st)], errs1)))
               else if hasFormatting then
                 (case parseInlineFormatting canvas (snd e) no_options []
                         (\<lambda>x. applyTextTransform x (cs_textTransform c)) False errs of
                    (runs, arr, errs1) \<Rightarrow>
                      ([TextBlock ty (Runs runs) pos (runsStyle runs st)], errs1))
               else
                 ([TextBlock ty
                     (Plain (if isPreElement then t else applyTextTransform t (cs_textTransform c)))
                     pos
                     (st\<lparr> bold := Some (isBold c \<and> \<not> shouldSkipBold (cs_fontFamily c)),
                          italic := Some (cs_fontStyle c = ''italic''),
                          underline := Some (str_includes (cs_textDecoration c) ''underline'') \<rparr>)],
                  errs)))"

section \<open>The page script: one element of the traversal\<close>

text \<open>
  The body of the callback of \<open>document.querySelectorAll('*').forEach\<close> for an element
  that is not yet marked as processed: the elements, placeholders and errors it
  pushes; \<open>Inl\<close> when the script throws.  \<open>off\<close> is the container offset (the value
  of \<open>containerOffset\<close>), \<open>parentTag\<close> the tag of the parent element, \<open>n\<close> the number of
  placeholders found so far.  The marking of elements as processed belongs to the
  traversal and is not part of this function.
\<close>

definition visit ::
    "(string \<Rightarrow> string) \<Rightarrow> (rat \<Rightarrow> rat \<Rightarrow> int) \<Rightarrow> (string \<Rightarrow> shadow_spec option) \<Rightarrow> rat \<times> rat \<Rightarrow>
     string option \<Rightarrow> nat \<Rightarrow> elem \<Rightarrow> string + element list \<times> placeholder list \<times> string list" where
  "visit canvas atan2_deg parseBoxShadow off parentTag n e =
     (let a = fst e; c = computed a; r = adjustRect off (bounds a)
      in if tagName a \<in> set textTags \<and>
            (hasBg (cs_backgroundColor c) \<or> style_hasBorder c \<or> hasShadow c)
         then Inr ([], [], if tagName a \<noteq> ''CODE'' then [text_style_message (tagName a) c] else [])
         else if className a \<noteq> [] \<and> str_includes (className a) ''placeholder''
         then (case extractPlaceholder r a n of (phs, errs) \<Rightarrow> Inr ([], phs, errs))
         else if tagName a = ''IMG'' \<and> rect_width r > 0 \<and> rect_height r > 0
         then Inr ([Image (elem_src a) (rectPosition r)], [], [])
         else
           (case (if tagName a = ''DIV'' then extractShape canvas parseBoxShadow r e
                  else ([], [], False)) of
              (els, errs, returned) \<Rightarrow>
                if returned then Inr (els, [], errs)
                else if tagName a = ''UL'' \<or> tagName a = ''OL''
                then (case extractList canvas r e errs of (els1, errs1) \<Rightarrow> Inr (els1, [], errs1))
                else if tagName a = ''TABLE''
                then (case extractTable canvas r e errs of
                        Inl ex \<Rightarrow> Inl ex
                      | Inr (els1, errs1) \<Rightarrow> Inr (els1, [], errs1))
                else if tagName a \<notin> set textTags then Inr ([], [], errs)
                else if (tagName a = ''SPAN'' \<or> tagName a = ''CODE'') \<and>
                        (case parentTag of None \<Rightarrow> False | Some pt \<Rightarrow> pt \<in> set textTags)
                then Inr ([], [], errs)
                else if tagName a = ''P'' \<and> spanProcessed a then Inr ([], [], errs)
                else (case extractText canvas atan2_deg r e errs of
                        (els1, errs1) \<Rightarrow> Inr (els1, [], errs1))))"

section \<open>Notions used in the statements\<close>


text \<open>The \<open>position\<close> of an element (a line has none) and the \<open>rotate\<close> of its style.\<close>

definition element_position :: "element \<Rightarrow> position option" where
  "element_position el =
     (case el of
        Image src pos \<Rightarrow> Some pos
      | Line x1 y1 x2 y2 lw col \<Rightarrow> None
      | Shape pos sh \<Rightarrow> Some pos
      | ListBlock items pos st \<Rightarrow> Some pos
      | TableBlock d cw pos st \<Rightarrow> Some pos
      | TextBlock ty txt pos st \<Rightarrow> Some pos)"

definition element_rotate :: "element \<Rightarrow> jsnum option" where
  "element_rotate el = (case el of TextBlock ty txt pos st \<Rightarrow> rotate st | _ \<Rightarrow> None)"

section \<open>Sample documents\<close>

text \<open>A 960 by 540 pixel body on a 10 by 5.625 inch layout, with one paragraph.\<close>

definition sample_body :: body_dimensions where
  "sample_body =
     \<lparr> width = 960, height = 540, scrollWidth = 960, scrollHeight = 540,
       containerWidth = None, containerHeight = None \<rparr>"

definition sample_position :: position where
  "sample_position = \<lparr> pos_x = 1, pos_y = 1, pos_w = 4, pos_h = 3 / 10 \<rparr>"

definition sample_text_style :: text_style where
  "sample_text_style =
     \<lparr> fontSize = Num 18, fontFace = ''Arial'', color = ''333333'', align = ''left'',
       lineSpacing = Some (Num 24), paraSpaceBefore = Num 0, paraSpaceAfter = Num 0,
       margin = [Num 0, Num 0, Num 0, Num 0], transparency = None, rotate = None,
       bold = Some False, italic = Some False, underline = Some False \<rparr>"

definition sample_data :: slide_data where
  "sample_data =
     \<lparr> sd_background = BgColor ''FFFFFF'',
       sd_elements = [TextBlock ''p'' (Plain ''Hello'') sample_position sample_text_style],
       sd_placeholders = [], sd_errors = [] \<rparr>"


text \<open>A table of two columns: \<open>even_table\<close> with two full rows, \<open>ragged_table\<close> with a short one.\<close>

definition sample_cell :: cell where
  "sample_cell =
     \<lparr> cell_text = Plain ''x'',
       cell_opts = \<lparr> cell_bold = False, cell_color = ''333333'', cell_fontSize = Num 10,
                     cell_fontFace = ''Arial'', cell_margin = [Num 0, Num 0, Num 0, Num 0],
                     cell_fill = None \<rparr> \<rparr>"

definition sample_table_style :: table_style where
  "sample_table_style =
     \<lparr> table_fontSize = Num 10, table_fontFace = ''Arial'', table_color = ''333333'',
       table_transparency = None, table_border_color = ''333333'',
       table_border_width = Num 0 \<rparr>"

definition even_table :: slide_data where
  "even_table =
     sample_data\<lparr> sd_elements :=
       [TableBlock [[sample_cell, sample_cell], [sample_cell, sample_cell]] [1 / 2, 1 / 2]
          sample_position sample_table_style] \<rparr>"

definition ragged_table :: slide_data where
  "ragged_table =
     sample_data\<lparr> sd_elements :=
       [TableBlock [[sample_cell, sample_cell], [sample_cell]] [1 / 2, 1 / 2]
          sample_position sample_table_style] \<rparr>"

text \<open>
  The computed style of plain dark text on a transparent background, and an element
  of a given tag, box and children that has it.
\<close>

definition plain_computed :: computed_style where
  "plain_computed =
     \<lparr> cs_fontSize = ''16px'', cs_fontFamily = ''Arial, sans-serif'', cs_fontWeight = ''400'',
       cs_fontStyle = ''normal'', cs_textDecoration = ''none solid rgb(51, 51, 51)'',
       cs_textTransform = ''none'', cs_textAlign = ''start'', cs_lineHeight = ''24px'',
       cs_color = ''rgb(51, 51, 51)'', cs_backgroundColor = ''rgba(0, 0, 0, 0)'',
       cs_backgroundImage = ''none'', cs_opacity = ''1'',
       cs_marginTop = ''0px'', cs_marginRight = ''0px'', cs_marginBottom = ''0px'',
       cs_marginLeft = ''0px'', cs_paddingTop = ''0px'', cs_paddingRight = ''0px'',
       cs_paddingBottom = ''0px'', cs_paddingLeft = ''0px'',
       cs_borderWidth = ''0px'', cs_borderColor = ''rgb(51, 51, 51)'',
       cs_borderTopWidth = ''0px'', cs_borderRightWidth = ''0px'',
       cs_borderBottomWidth = ''0px'', cs_borderLeftWidth = ''0px'',
       cs_borderTopColor = ''rgb(51, 51, 51)'', cs_borderRightColor = ''rgb(51, 51, 51)'',
       cs_borderBottomColor = ''rgb(51, 51, 51)'', cs_borderLeftColor = ''rgb(51, 51, 51)'',
       cs_borderRadius = ''0px'', cs_boxShadow = ''none'', cs_transform = ''none'',
       cs_writingMode = ''horizontal-tb'' \<rparr>"

definition plain_attrs :: "string \<Rightarrow> rect \<Rightarrow> attrs" where
  "plain_attrs tag bx =
     \<lparr> tagName = tag, className = [], elem_id = [], elem_src = [], spanProcessed = False,
       computed = plain_computed, bounds = bx,
       offsetWidth = rect_width bx, offsetHeight = rect_height bx, innerText = [] \<rparr>"

definition box :: "rat \<Rightarrow> rat \<Rightarrow> rat \<Rightarrow> rat \<Rightarrow> rect" where
  "box l t w h = \<lparr> left = l, top = t, rect_width = w, rect_height = h \<rparr>"

text \<open>The paragraph \<open><p>Hello <b>bold </b>world</p>\<close>, 400 by 24 pixels at (96, 96).\<close>

definition bold_paragraph :: elem where
  "bold_paragraph =
     (plain_attrs ''P'' (box 96 96 400 24),
      [TextNode ''Hello '',
       Element ((plain_attrs ''B'' (box 140 96 40 24))
                  \<lparr> computed := plain_computed\<lparr> cs_fontWeight := ''700'' \<rparr> \<rparr>)
         [TextNode ''bold ''],
       TextNode ''world''])"

text \<open>
  A table 200 pixels wide in 8 pixel type, with a head row of two 97 pixel cells and
  one body row, as a browser lays it out with the default 2 pixel border spacing.
\<close>

definition small_elem :: "string \<Rightarrow> rect \<Rightarrow> node list \<Rightarrow> node" where
  "small_elem tag bx cs =
     Element ((plain_attrs tag bx)\<lparr> computed := plain_computed\<lparr> cs_fontSize := ''8px'' \<rparr> \<rparr>) cs"

definition small_table :: elem where
  "small_table =
     ((plain_attrs ''TABLE'' (box 96 96 200 60))
        \<lparr> computed := plain_computed\<lparr> cs_fontSize := ''8px'' \<rparr> \<rparr>,
      [small_elem ''THEAD'' (box 96 96 200 30)
         [small_elem ''TR'' (box 98 98 196 26)
            [small_elem ''TH'' (box 98 98 97 26) [TextNode ''A''],
             small_elem ''TH'' (box 197 98 97 26) [TextNode ''B'']]],
       small_elem ''TBODY'' (box 96 126 200 30)
         [small_elem ''TR'' (box 98 128 196 26)
            [small_elem ''TD'' (box 98 128 97 26) [TextNode ''1''],
             small_elem ''TD'' (box 197 128 97 26) [TextNode ''2'']]]])"

text \<open>A container with the background \<open>rgba(255, 0, 0, 0.7)\<close>.\<close>

definition translucent_div :: elem where
  "translucent_div =
     ((plain_attrs ''DIV'' (box 96 96 200 100))
        \<lparr> computed := plain_computed\<lparr> cs_backgroundColor := ''rgba(255, 0, 0, 0.7)'' \<rparr> \<rparr>,
      [])"

text \<open>A paragraph set vertically (\<open>writing-mode: vertical-rl\<close>) at the left edge.\<close>

definition vertical_paragraph :: elem where
  "vertical_paragraph =
     ((plain_attrs ''P'' (box 0 0 20 200))
        \<lparr> computed := plain_computed\<lparr> cs_writingMode := ''vertical-rl'' \<rparr> \<rparr>,
      [TextNode ''Hi''])"

text \<open>An image 100 by 50 pixels at (96, 96).\<close>

definition logo_image :: elem where
  "logo_image = ((plain_attrs ''IMG'' (box 96 96 100 50))\<lparr> elem_src := ''file:///logo.png'' \<rparr>, [])"

section \<open>Properties of the overflow check\<close>

lemma heightOverflowPt_over:
  "(heightOverflowPt b > heightOverflowTolerance) =
   ((scrollHeight b - effectiveHeight b) * PT_PER_PX > 100 + 1 / 2)"
  by (auto simp: heightOverflowPt_def heightOverflowTolerance_def PT_PER_PX_def max_def)

lemma heightOverflowPt_excess:
  assumes "(scrollHeight b - effectiveHeight b) * PT_PER_PX > 100 + 1 / 2"
  shows "heightOverflowPt b - heightOverflowTolerance =
         (scrollHeight b - effectiveHeight b) * PT_PER_PX - (100 + 1 / 2)"
  using assms
  by (simp add: heightOverflowPt_def heightOverflowTolerance_def PT_PER_PX_def max_def
      field_simps)

text \<open>
  C3, as the claim states it, fails.  The source takes one pixel off the difference
  before converting it: a body that scrolls 300 pixels (150pt) past its height is
  reported with an excess of 49.5pt, not 50pt, and one that scrolls 201 pixels
  (100.5pt) past it is not reported at all.
\<close>

theorem overflow_150pt_counterexample:
  "getBodyDimensions_errors
     \<lparr> width = 960, height = 540, scrollWidth = 960, scrollHeight = 840,
       containerWidth = None, containerHeight = None \<rparr> =
     [''HTML content overflows by 49.5pt vertically (exceeds 100pt padding tolerance)''] \<and>
   getBodyDimensions_errors
     \<lparr> width = 960, height = 540, scrollWidth = 960, scrollHeight = 741,
       containerWidth = None, containerHeight = None \<rparr> = []"
  by code_simp

text \<open>
  C3, amended: a vertical overflow finding is produced if and only if the scroll height
  exceeds the effective height by more than 100.5pt (the 100pt tolerance and one
  pixel), there is at most one such finding, it reports the amount over 100.5pt (to
  one decimal), and the scroll width has no influence on the findings.
\<close>

theorem overflow_finding_iff:
  "((getBodyDimensions_errors b \<noteq> []) =
      ((scrollHeight b - effectiveHeight b) * PT_PER_PX > 100 + 1 / 2)) \<and>
   (getBodyDimensions_errors b = [] \<or>
    getBodyDimensions_errors b =
      [overflow_message ((scrollHeight b - effectiveHeight b) * PT_PER_PX - (100 + 1 / 2))]) \<and>
   getBodyDimensions_errors (b\<lparr> scrollWidth := sw \<rparr>) = getBodyDimensions_errors b"
proof (intro conjI)
  show "(getBodyDimensions_errors b \<noteq> []) =
      ((scrollHeight b - effectiveHeight b) * PT_PER_PX > 100 + 1 / 2)"
    by (simp add: getBodyDimensions_errors_def heightOverflowPt_over)
  show "getBodyDimensions_errors b = [] \<or>
    getBodyDimensions_errors b =
      [overflow_message ((scrollHeight b - effectiveHeight b) * PT_PER_PX - (100 + 1 / 2))]"
  proof (cases "(scrollHeight b - effectiveHeight b) * PT_PER_PX > 100 + 1 / 2")
    case True
    then show ?thesis
      by (simp add: getBodyDimensions_errors_def heightOverflowPt_over heightOverflowPt_excess)
  next
    case False
    then show ?thesis
      by (simp add: getBodyDimensions_errors_def heightOverflowPt_over)
  qed
  show "getBodyDimensions_errors (b\<lparr> scrollWidth := sw \<rparr>) = getBodyDimensions_errors b"
    by (simp add: getBodyDimensions_errors_def heightOverflowPt_def effectiveHeight_def)
qed

section \<open>Properties of html2pptx\<close>







section \<open>Properties of the slide emitter\<close>





section \<open>Properties of the shape transparency\<close>

lemma shapeTransparency_of_alpha:
  assumes "hasBg backgroundColor"
    and "extractAlpha (getComputedRGBColor canvas backgroundColor) = Some (Num t)" and "t \<noteq> 0"
  shows "shapeTransparency canvas backgroundColor opacity =
         Some (Num (of_int (Math_round ((1 - t) * 100))))"
  using assms by (simp add: shapeTransparency_def Let_def num_map_def)

text \<open>
  C2 fails on the code.  \<open>extractAlpha\<close> already returns the transparency
  \<open>round((1 - a) * 100)\<close>, 30 for an alpha of 0.7; the shape branch takes that value for
  an alpha and converts it once more, so the shape extracted from a container with the
  background \<open>rgba(255, 0, 0, 0.7)\<close> has the fill transparency
  \<open>round((1 - 30) * 100) = -2900\<close>, and that value is passed on to the deck library.
\<close>

theorem shape_alpha_07_transparency:
  "(case visit canvas atan2_deg (\<lambda>s. None) (0, 0) None 0 translucent_div of
      Inr ([Shape pos sh], phs, errs) \<Rightarrow>
        shape_fill sh = Some ''ff0000'' \<and> shape_transparency sh = Some (Num (- 2900)) \<and>
        so_fill (shapeOptions pos sh) = Some (''ff0000'', Some (Num (- 2900)))
    | _ \<Rightarrow> False) \<and>
   extractAlpha ''rgba(255, 0, 0, 0.7)'' = Some (Num 30)"
  by code_simp

section \<open>Properties of the rotation\<close>












section \<open>Properties of the reported boxes\<close>




section \<open>Properties of the tables\<close>

lemma rowErrors_empty: "(rowErrors n i rows = []) = (\<forall>row \<in> set rows. length row = n)"
  by (induction rows arbitrary: i) auto

lemma length_rowErrors: "length (rowErrors n i rows) = length (filter (\<lambda>row. length row \<noteq> n) rows)"
  by (induction rows arbitrary: i) auto

text \<open>
  C6, as the claim states it, fails: nothing in the code makes the column-width ratios
  sum to 1.  Each ratio is the rendered width of a header cell over the width of the
  table, so a table laid out with the default border spacing passes validation with
  ratios that sum to 0.97.
\<close>

theorem table_ratios_counterexample:
  "(case visit (\<lambda>s. s) (\<lambda>b a. 0) (\<lambda>s. None) (0, 0) None 0 small_table of
      Inr ([TableBlock d cw pos st], phs, errs) \<Rightarrow>
        validationErrors sample_body
          \<lparr> sd_background = BgColor ''FFFFFF'', sd_elements = [TableBlock d cw pos st],
            sd_placeholders = phs, sd_errors = errs \<rparr> (Some (9144000, 5143500)) = [] \<and>
        cw = [97 / 200, 97 / 200] \<and> sum_list cw = 97 / 100
    | _ \<Rightarrow> False)"
  by code_simp

text \<open>
  C6, amended: every table block of a document that passes validation has at least
  one column-width ratio and one row, and every row (header and data) has exactly as
  many cells as there are ratios; the findings of a table are among the findings of
  its document; and a table with ratios and rows gets one finding for each row whose
  cell count differs from the number of ratios.  (Nothing is said of the sum of the
  ratios.)
\<close>

theorem table_rows_match_columns:
  "(validationErrors b sd layout = [] \<and> TableBlock d cw pos st \<in> set (sd_elements sd) \<longrightarrow>
      cw \<noteq> [] \<and> d \<noteq> [] \<and> (\<forall>row \<in> set d. length row = length cw)) \<and>
   (TableBlock d cw pos st \<in> set (sd_elements sd) \<longrightarrow>
      set (tableErrors (TableBlock d cw pos st)) \<subseteq> set (validationErrors b sd layout)) \<and>
   (cw \<noteq> [] \<and> d \<noteq> [] \<longrightarrow>
      length (tableErrors (TableBlock d cw pos st)) =
        length (filter (\<lambda>row. length row \<noteq> length cw) d))"
proof (intro conjI impI)
  assume a: "validationErrors b sd layout = [] \<and> TableBlock d cw pos st \<in> set (sd_elements sd)"
  then have "concat (map tableErrors (sd_elements sd)) = []"
    by (simp add: validationErrors_def)
  with a have t: "tableErrors (TableBlock d cw pos st) = []" by auto
  then show "cw \<noteq> []" "d \<noteq> []" by (auto simp: tableErrors_def split: if_splits)
  with t have "rowErrors (length cw) 0 d = []" by (simp add: tableErrors_def)
  then show "\<forall>row \<in> set d. length row = length cw" by (simp add: rowErrors_empty)
next
  assume "TableBlock d cw pos st \<in> set (sd_elements sd)"
  then show "set (tableErrors (TableBlock d cw pos st)) \<subseteq> set (validationErrors b sd layout)"
    by (auto simp: validationErrors_def)
next
  assume "cw \<noteq> [] \<and> d \<noteq> []"
  then show "length (tableErrors (TableBlock d cw pos st)) =
        length (filter (\<lambda>row. length row \<noteq> length cw) d)"
    by (simp add: tableErrors_def length_rowErrors)
qed

theorem table_rows_match_columns_witness:
  "validationErrors sample_body even_table (Some (9144000, 5143500)) = [] \<and>
   list_all
     (\<lambda>el. case el of
             TableBlock d cw pos st \<Rightarrow>
               cw \<noteq> [] \<and> d \<noteq> [] \<and> list_all (\<lambda>row. length row = length cw) d
           | _ \<Rightarrow> False)
     (sd_elements even_table) \<and>
   length (validationErrors sample_body ragged_table (Some (9144000, 5143500))) = 1"
proof -
  let ?d = "[[sample_cell, sample_cell], [sample_cell, sample_cell]]"
  let ?d' = "[[sample_cell, sample_cell], [sample_cell]]"
  let ?cw = "[1 / 2, 1 / 2 :: rat]"
  have v: "validationErrors sample_body even_table (Some (9144000, 5143500)) = []"
    by code_simp
  have els: "sd_elements even_table = [TableBlock ?d ?cw sample_position sample_table_style]"
    by (simp add: even_table_def)
  have v': "validationErrors sample_body ragged_table (Some (9144000, 5143500)) =
      tableErrors (TableBlock ?d' ?cw sample_position sample_table_style)"
    by code_simp
  note T = table_rows_match_columns
      [where b = sample_body and sd = even_table and layout = "Some (9144000, 5143500)"
         and d = ?d and cw = ?cw and pos = sample_position and st = sample_table_style]
  note T' = table_rows_match_columns
      [where b = sample_body and sd = ragged_table and layout = "Some (9144000, 5143500)"
         and d = ?d' and cw = ?cw and pos = sample_position and st = sample_table_style]
  from T v els have "?cw \<noteq> [] \<and> ?d \<noteq> [] \<and> (\<forall>row \<in> set ?d. length row = length ?cw)"
    by simp
  then have a: "list_all
     (\<lambda>el. case el of
             TableBlock d cw pos st \<Rightarrow>
               cw \<noteq> [] \<and> d \<noteq> [] \<and> list_all (\<lambda>row. length row = length cw) d
           | _ \<Rightarrow> False)
     (sd_elements even_table)"
    unfolding els by simp
  from T' have "length (tableErrors (TableBlock ?d' ?cw sample_position sample_table_style)) =
      length (filter (\<lambda>row. length row \<noteq> length ?cw) ?d')"
    by simp
  then have "length (validationErrors sample_body ragged_table (Some (9144000, 5143500))) = 1"
    unfolding v' by simp
  with v a show ?thesis by simp
qed

section \<open>Properties of the inline runs\<close>

text \<open>
  Text nodes that follow one another under one parent end up in one run, which has the
  options of the parent.
\<close>

lemma text_nodes_join_last_run:
  assumes "list_all (\<lambda>n. case n of TextNode t \<Rightarrow> True | _ \<Rightarrow> False) cs"
  shows "fold (forEach_node canvas bo tt False) cs (True, rs @ [r], errs) =
         (True, rs @ [r\<lparr> run_text := run_text r @
                          concat (map (\<lambda>n. tt (collapse_spaces (textContent n))) cs) \<rparr>], errs)"
  using assms
proof (induction cs arbitrary: r)
  case Nil
  then show ?case by simp
next
  case (Cons n cs)
  then obtain t where n: "n = TextNode t" by (cases n) auto
  from Cons.prems have rest: "list_all (\<lambda>n. case n of TextNode t \<Rightarrow> True | _ \<Rightarrow> False) cs"
    by simp
  show ?case
    unfolding n
    by (simp add: add_fragment_def Cons.IH [OF rest])
qed

lemma text_nodes_one_run:
  assumes "list_all (\<lambda>n. case n of TextNode t \<Rightarrow> True | _ \<Rightarrow> False) cs" "cs \<noteq> []"
  shows "fold (forEach_node canvas bo tt False) cs (False, [], errs) =
         (True, [\<lparr> run_text = concat (map (\<lambda>n. tt (collapse_spaces (textContent n))) cs),
                   run_options = bo \<rparr>], errs)"
proof -
  from assms obtain t cs' where cs: "cs = TextNode t # cs'"
    by (cases cs; cases "hd cs") auto
  with assms(1) have rest: "list_all (\<lambda>n. case n of TextNode t \<Rightarrow> True | _ \<Rightarrow> False) cs'"
    by simp
  show ?thesis
    unfolding cs
    using text_nodes_join_last_run [OF rest, of canvas bo tt "[]"]
    by (simp add: add_fragment_def)
qed

lemma parseInlineFormatting_no_empty_run:
  "list_all (\<lambda>r. run_text r \<noteq> [])
     (fst (parseInlineFormatting canvas cs baseOptions runs tt preserveSpaces errs))"
  by (simp add: parseInlineFormatting_def Let_def list_all_iff split: prod.splits)

text \<open>
  C7 fails on the code: the trimming that the source means for the first and the last
  run of the sequence also runs at the end of every nested call, on the shared array,
  so the last run so far loses its trailing white space when an inline element ends.
  For \<open><p>Hello <b>bold </b>world</p>\<close> the interior run \<open>bold\<close> has lost its space.
\<close>

theorem nested_run_loses_trailing_space:
  "map run_text
     (fst (parseInlineFormatting canvas (snd bold_paragraph) no_options [] (\<lambda>x. x) False [])) =
   [''Hello '', ''bold'', ''world'']"
  by code_simp

section \<open>Properties of the font sizes\<close>

lemma Math_max_floor: "Math_max v m = Num x \<Longrightarrow> m \<le> x"
  by (auto simp: Math_max_def num_map_def split: jsnum.splits)

lemma baseStyle_fontSize_floor: "fontSize (baseStyle canvas c rotation) = Num x \<Longrightarrow> 6 \<le> x"
  by (auto simp: baseStyle_def dest: Math_max_floor)

lemma listStyle_fontSize_floor: "fontSize (listStyle canvas ulc c) = Num x \<Longrightarrow> 6 \<le> x"
  by (auto simp: listStyle_def dest: Math_max_floor)

lemma cellFontSize_floor: "cellFontSize c = Num x \<Longrightarrow> 6 \<le> x"
  by (auto simp: cellFontSize_def dest: Math_max_floor)

text \<open>
  C8 fails on the code for table blocks: the style of a text block, of a list block
  and of a table cell takes the larger of the converted font size and 6, the style of
  the table block itself takes the converted font size as it is.  A table in 8 pixel
  type is extracted with a font size of 5.6 points, while its cells get 6.
\<close>

theorem table_style_fontSize_below_6:
  "(case visit canvas atan2_deg parseBoxShadow (0, 0) None 0 small_table of
      Inr ([TableBlock d cw pos st], phs, errs) \<Rightarrow>
        table_fontSize st = Num (28 / 5) \<and>
        list_all (list_all (\<lambda>c. cell_fontSize (cell_opts c) = Num 6)) d
    | _ \<Rightarrow> False)"
  by code_simp

section \<open>Properties of the reported positions\<close>

lemma element_position_simps:
  "element_position (Image src pos) = Some pos"
  "element_position (Line x1 y1 x2 y2 lw col) = None"
  "element_position (Shape pos sh) = Some pos"
  "element_position (ListBlock items pos st) = Some pos"
  "element_position (TableBlock d cw pos tst) = Some pos"
  "element_position (TextBlock ty txt pos st) = Some pos"
  by (simp_all add: element_position_def)

lemma element_rotate_simps:
  "element_rotate (TextBlock ty txt pos st) = rotate st"
  by (simp add: element_rotate_def)

lemma borderLine_position: "el \<in> set (borderLine bw col ends) \<Longrightarrow> element_position el = None"
  by (auto simp: borderLine_def element_position_simps Let_def split: if_splits prod.splits)

lemma borderLines_position: "el \<in> set (borderLines r c) \<Longrightarrow> element_position el = None"
  by (auto simp: borderLines_def Let_def dest: borderLine_position)

lemma extractShape_position:
  assumes "extractShape canvas pbs r e = (els, errs, ret)" "el \<in> set els"
    "element_position el = Some pos"
  shows "pos = rectPosition r"
proof -
  from assms(1,2) have "el = Shape (rectPosition r) (case el of Shape p sh \<Rightarrow> sh) \<or>
      el \<in> set (borderLines r (computed (fst e)))"
    by (auto simp: extractShape_def Let_def split: if_splits)
  then show ?thesis
  proof
    assume "el = Shape (rectPosition r) (case el of Shape p sh \<Rightarrow> sh)"
    then have "element_position el = Some (rectPosition r)"
      by (metis element_position_simps(3))
    with assms(3) show ?thesis by simp
  next
    assume "el \<in> set (borderLines r (computed (fst e)))"
    from borderLines_position [OF this] assms(3) show ?thesis by simp
  qed
qed

lemma extractList_position:
  assumes "extractList canvas r e errs = (els, errs')" "el \<in> set els"
    "element_position el = Some pos"
  shows "pos = rectPosition r"
  using assms
  by (auto simp: extractList_def Let_def element_position_simps split: if_splits prod.splits)

lemma extractTable_position:
  assumes "extractTable canvas r e errs = Inr (els, errs')" "el \<in> set els"
    "element_position el = Some pos"
  shows "pos = rectPosition r"
  using assms
  by (auto simp: extractTable_def Let_def element_position_simps
      split: if_splits prod.splits sum.splits)

lemma extractText_position:
  assumes "extractText canvas atan2_deg r e errs = (els, errs')" "el \<in> set els"
    "element_position el = Some pos" "element_rotate el = None"
  shows "pos = rectPosition r"
  using assms
  by (auto simp: extractText_def Let_def element_position_simps element_rotate_simps
      baseStyle_def preStyle_def runsStyle_def getPositionAndSize_def rectPosition_def
      split: if_splits prod.splits option.splits jsnum.splits)

lemma extractPlaceholder_position:
  assumes "extractPlaceholder r a n = (phs, errs)" "ph \<in> set phs"
  shows "ph_x ph = pos_x (rectPosition r) \<and> ph_y ph = pos_y (rectPosition r) \<and>
         ph_w ph = pos_w (rectPosition r) \<and> ph_h ph = pos_h (rectPosition r)"
  using assms
  by (auto simp: extractPlaceholder_def rectPosition_def positionOf_def split: if_splits)

lemma rectPosition_adjustRect:
  "pos_x (rectPosition (adjustRect off r)) = pxToInch (max 0 (left r - fst off)) \<and>
   pos_y (rectPosition (adjustRect off r)) = pxToInch (max 0 (top r - snd off)) \<and>
   pos_w (rectPosition (adjustRect off r)) = pxToInch (rect_width r) \<and>
   pos_h (rectPosition (adjustRect off r)) = pxToInch (rect_height r) \<and>
   0 \<le> pos_x (rectPosition (adjustRect off r)) \<and> 0 \<le> pos_y (rectPosition (adjustRect off r))"
  by (simp add: rectPosition_def positionOf_def adjustRect_def pxToInch_def PX_PER_IN_def)

lemma visit_positions:
  assumes v: "visit canvas atan2_deg pbs off parentTag n e = Inr (els, phs, errs)"
  shows "(\<forall>el \<in> set els. \<forall>pos. element_position el = Some pos \<and> element_rotate el = None \<longrightarrow>
            pos = rectPosition (adjustRect off (bounds (fst e)))) \<and>
         (\<forall>ph \<in> set phs.
            ph_x ph = pos_x (rectPosition (adjustRect off (bounds (fst e)))) \<and>
            ph_y ph = pos_y (rectPosition (adjustRect off (bounds (fst e)))) \<and>
            ph_w ph = pos_w (rectPosition (adjustRect off (bounds (fst e)))) \<and>
            ph_h ph = pos_h (rectPosition (adjustRect off (bounds (fst e)))))"
proof -
  let ?r = "adjustRect off (bounds (fst e))"
  let ?a = "fst e"
  let ?c = "computed (fst e)"
  show ?thesis
  proof (cases "tagName ?a \<in> set textTags \<and>
            (hasBg (cs_backgroundColor ?c) \<or> style_hasBorder ?c \<or> hasShadow ?c)")
    case True
    with v show ?thesis by (auto simp: visit_def Let_def)
  next
    case nt: False
    show ?thesis
    proof (cases "className ?a \<noteq> [] \<and> str_includes (className ?a) ''placeholder''")
      case True
      with v nt have "els = []" "\<exists>errs. extractPlaceholder ?r ?a n = (phs, errs)"
        by (auto simp: visit_def Let_def split: prod.splits)
      then obtain perrs where "els = []" "extractPlaceholder ?r ?a n = (phs, perrs)" by blast
      then show ?thesis using extractPlaceholder_position [of ?r ?a n phs perrs] by simp
    next
      case np: False
      show ?thesis
      proof (cases "tagName ?a = ''IMG'' \<and> rect_width ?r > 0 \<and> rect_height ?r > 0")
        case True
        with v nt np show ?thesis
          by (auto simp: visit_def Let_def element_position_def)
      next
        case ni: False
        obtain sels serrs ret where sh:
          "(if tagName ?a = ''DIV'' then extractShape canvas pbs ?r e else ([], [], False)) =
           (sels, serrs, ret)"
          by (cases "if tagName ?a = ''DIV'' then extractShape canvas pbs ?r e else ([], [], False)")
             auto
        show ?thesis
        proof (cases ret)
          case True
          with v nt np ni sh have e: "els = sels" "phs = []"
            by (auto simp: visit_def Let_def split: if_splits)
          from sh True have sh': "extractShape canvas pbs ?r e = (sels, serrs, ret)"
            by (auto split: if_splits)
          show ?thesis using e extractShape_position [OF sh'] by auto
        next
          case False
          with v nt np ni sh have
            "phs = [] \<and>
             (els = [] \<or> (\<exists>errs'. extractList canvas ?r e serrs = (els, errs')) \<or>
              (\<exists>errs'. extractTable canvas ?r e serrs = Inr (els, errs')) \<or>
              (\<exists>errs'. extractText canvas atan2_deg ?r e serrs = (els, errs')))"
            by (auto simp: visit_def Let_def split: if_splits prod.splits sum.splits)
          then show ?thesis
            by (auto dest: extractList_position extractTable_position extractText_position)
        qed
      qed
    qed
  qed
qed

text \<open>
  C10, as the claim states it, fails for rotated text: a paragraph set vertically at
  the left edge, 20 pixels wide and 200 high, is reported with the negative left
  coordinate -15/16 inch, and with the height of its rendered box as its width.
\<close>

theorem rotated_text_counterexample:
  "(case visit (\<lambda>s. s) (\<lambda>b a. 0) (\<lambda>s. None) (0, 0) None 0 vertical_paragraph of
      Inr ([TextBlock ty txt pos st], phs, errs) \<Rightarrow>
        pos_x pos = - (15 / 16) \<and> pos_w pos = pxToInch 200 \<and> pos_h pos = pxToInch 20 \<and>
        rotate st = Some (Num 90)
    | _ \<Rightarrow> False)"
  by code_simp

text \<open>
  C10, amended: \<open>adjustRect\<close> reports left and top relative to the container, clamped
  to be at least 0, and the width and height of the rendered box as they are; every
  placeholder, and every image, shape, list, table and text element without a rotation
  that the script extracts from an element, is reported at exactly that box, in
  inches.  (Border lines have no box, and a text element with a rotation is placed
  around the centre of that box instead.)
\<close>

theorem reported_positions_clamped:
  "left (adjustRect off r) = max 0 (left r - fst off) \<and>
   top (adjustRect off r) = max 0 (top r - snd off) \<and>
   rect_width (adjustRect off r) = rect_width r \<and>
   rect_height (adjustRect off r) = rect_height r \<and>
   (visit canvas atan2_deg pbs off parentTag n e = Inr (els, phs, errs) \<longrightarrow>
      (\<forall>el \<in> set els. \<forall>pos.
         element_position el = Some pos \<and> element_rotate el = None \<longrightarrow>
           pos_x pos = pxToInch (max 0 (left (bounds (fst e)) - fst off)) \<and> 0 \<le> pos_x pos \<and>
           pos_y pos = pxToInch (max 0 (top (bounds (fst e)) - snd off)) \<and> 0 \<le> pos_y pos \<and>
           pos_w pos = pxToInch (rect_width (bounds (fst e))) \<and>
           pos_h pos = pxToInch (rect_height (bounds (fst e)))) \<and>
      (\<forall>ph \<in> set phs.
         ph_x ph = pxToInch (max 0 (left (bounds (fst e)) - fst off)) \<and> 0 \<le> ph_x ph \<and>
         ph_y ph = pxToInch (max 0 (top (bounds (fst e)) - snd off)) \<and> 0 \<le> ph_y ph \<and>
         ph_w ph = pxToInch (rect_width (bounds (fst e))) \<and>
         ph_h ph = pxToInch (rect_height (bounds (fst e)))))"
proof (intro conjI impI)
  show "left (adjustRect off r) = max 0 (left r - fst off)"
    "top (adjustRect off r) = max 0 (top r - snd off)"
    "rect_width (adjustRect off r) = rect_width r"
    "rect_height (adjustRect off r) = rect_height r"
    by (simp_all add: adjustRect_def)
next
  assume v: "visit canvas atan2_deg pbs off parentTag n e = Inr (els, phs, errs)"
  note P = visit_positions [OF v]
  note R = rectPosition_adjustRect [of off "bounds (fst e)"]
  show "\<forall>el \<in> set els. \<forall>pos.
         element_position el = Some pos \<and> element_rotate el = None \<longrightarrow>
           pos_x pos = pxToInch (max 0 (left (bounds (fst e)) - fst off)) \<and> 0 \<le> pos_x pos \<and>
           pos_y pos = pxToInch (max 0 (top (bounds (fst e)) - snd off)) \<and> 0 \<le> pos_y pos \<and>
           pos_w pos = pxToInch (rect_width (bounds (fst e))) \<and>
           pos_h pos = pxToInch (rect_height (bounds (fst e)))"
  proof (intro ballI allI impI)
    fix el pos
    assume "el \<in> set els" "element_position el = Some pos \<and> element_rotate el = None"
    with P have "pos = rectPosition (adjustRect off (bounds (fst e)))" by blast
    with R show "pos_x pos = pxToInch (max 0 (left (bounds (fst e)) - fst off)) \<and> 0 \<le> pos_x pos \<and>
           pos_y pos = pxToInch (max 0 (top (bounds (fst e)) - snd off)) \<and> 0 \<le> pos_y pos \<and>
           pos_w pos = pxToInch (rect_width (bounds (fst e))) \<and>
           pos_h pos = pxToInch (rect_height (bounds (fst e)))"
      by simp
  qed
  show "\<forall>ph \<in> set phs.
         ph_x ph = pxToInch (max 0 (left (bounds (fst e)) - fst off)) \<and> 0 \<le> ph_x ph \<and>
         ph_y ph = pxToInch (max 0 (top (bounds (fst e)) - snd off)) \<and> 0 \<le> ph_y ph \<and>
         ph_w ph = pxToInch (rect_width (bounds (fst e))) \<and>
         ph_h ph = pxToInch (rect_height (bounds (fst e)))"
  proof
    fix ph assume "ph \<in> set phs"
    with P have "ph_x ph = pos_x (rectPosition (adjustRect off (bounds (fst e)))) \<and>
            ph_y ph = pos_y (rectPosition (adjustRect off (bounds (fst e)))) \<and>
            ph_w ph = pos_w (rectPosition (adjustRect off (bounds (fst e)))) \<and>
            ph_h ph = pos_h (rectPosition (adjustRect off (bounds (fst e))))"
      by blast
    with R show "ph_x ph = pxToInch (max 0 (left (bounds (fst e)) - fst off)) \<and> 0 \<le> ph_x ph \<and>
         ph_y ph = pxToInch (max 0 (top (bounds (fst e)) - snd off)) \<and> 0 \<le> ph_y ph \<and>
         ph_w ph = pxToInch (rect_width (bounds (fst e))) \<and>
         ph_h ph = pxToInch (rect_height (bounds (fst e)))"
      by simp
  qed
qed

theorem reported_positions_clamped_witness:
  "visit (\<lambda>s. s) (\<lambda>b a. 0) (\<lambda>s. None) (100, 90) None 0 logo_image =
     Inr ([Image ''file:///logo.png''
             \<lparr> pos_x = 0, pos_y = 1 / 16, pos_w = 25 / 24, pos_h = 25 / 48 \<rparr>], [], []) \<and>
   left (bounds (fst logo_image)) - fst (100 :: rat, 90 :: rat) < 0 \<and>
   element_position
     (Image ''file:///logo.png'' \<lparr> pos_x = 0, pos_y = 1 / 16, pos_w = 25 / 24, pos_h = 25 / 48 \<rparr>) =
     Some \<lparr> pos_x = 0, pos_y = 1 / 16, pos_w = 25 / 24, pos_h = 25 / 48 \<rparr> \<and>
   element_rotate
     (Image ''file:///logo.png'' \<lparr> pos_x = 0, pos_y = 1 / 16, pos_w = 25 / 24, pos_h = 25 / 48 \<rparr>) =
     None \<and>
   pos_x \<lparr> pos_x = 0, pos_y = 1 / 16, pos_w = 25 / 24, pos_h = 25 / 48 \<rparr> =
     pxToInch (max 0 (96 - 100)) \<and>
   pos_y \<lparr> pos_x = 0, pos_y = 1 / 16, pos_w = 25 / 24, pos_h = 25 / 48 \<rparr> = pxToInch 6 \<and>
   pos_w \<lparr> pos_x = 0, pos_y = 1 / 16, pos_w = 25 / 24, pos_h = 25 / 48 \<rparr> = pxToInch 100 \<and>
   pos_h \<lparr> pos_x = 0, pos_y = 1 / 16, pos_w = 25 / 24, pos_h = 25 / 48 \<rparr> = pxToInch 50"
proof -
  define pos where "pos = \<lparr> pos_x = 0, pos_y = 1 / 16, pos_w = 25 / 24, pos_h = 25 / 48 \<rparr>"
  have v: "visit (\<lambda>s. s) (\<lambda>b a. 0) (\<lambda>s. None) (100, 90) None 0 logo_image =
     Inr ([Image ''file:///logo.png'' pos], [], [])"
    unfolding pos_def by code_simp
  have b: "left (bounds (fst logo_image)) = 96" "top (bounds (fst logo_image)) = 96"
    "rect_width (bounds (fst logo_image)) = 100" "rect_height (bounds (fst logo_image)) = 50"
    by (simp_all add: logo_image_def plain_attrs_def box_def)
  have p: "element_position (Image ''file:///logo.png'' pos) = Some pos"
    "element_rotate (Image ''file:///logo.png'' pos) = None"
    by (simp_all add: element_position_def element_rotate_def)
  note T = reported_positions_clamped
      [where canvas = "\<lambda>s. s" and atan2_deg = "\<lambda>b a. 0" and pbs = "\<lambda>s. None"
         and off = "(100, 90)" and parentTag = None and n = 0 and e = logo_image
         and els = "[Image ''file:///logo.png'' pos]" and phs = "[]" and errs = "[]"]
  from T v have "\<forall>el \<in> set [Image ''file:///logo.png'' pos]. \<forall>q.
      element_position el = Some q \<and> element_rotate el = None \<longrightarrow>
        pos_x q = pxToInch (max 0 (left (bounds (fst logo_image)) - fst (100 :: rat, 90 :: rat))) \<and>
        0 \<le> pos_x q \<and>
        pos_y q = pxToInch (max 0 (top (bounds (fst logo_image)) - snd (100 :: rat, 90 :: rat))) \<and>
        0 \<le> pos_y q \<and>
        pos_w q = pxToInch (rect_width (bounds (fst logo_image))) \<and>
        pos_h q = pxToInch (rect_height (bounds (fst logo_image)))"
    by blast
  with p have "pos_x pos = pxToInch (max 0 (96 - 100)) \<and> pos_y pos = pxToInch (max 0 (96 - 90)) \<and>
      pos_w pos = pxToInch 100 \<and> pos_h pos = pxToInch 50"
    unfolding b by simp
  then have q: "pos_x pos = pxToInch (max 0 (96 - 100)) \<and> pos_y pos = pxToInch 6 \<and>
      pos_w pos = pxToInch 100 \<and> pos_h pos = pxToInch 50"
    by simp
  from v p q b show ?thesis unfolding pos_def by simp
qed

end
